theory Spec2Isabelle
  imports Complex_Main "HOL-Library.AList"
begin

section \<open>The asset daemon cursor of dagster/\_core/definitions/asset\_daemon\_cursor.py\<close>

subsection \<open>Python values\<close>

text \<open>
  Every exception the module can raise is a value. \<open>CheckError\<close> is what
  \<^verbatim>\<open>check.invariant\<close> and \<^verbatim>\<open>check.inst\<close> raise, \<open>DeserializationError\<close> what the
  generic serialization layer raises; the others are Python's own.
\<close>

datatype error =
  CheckError | KeyError | TypeError | AttributeError | ValueError | DeserializationError

text \<open>
  A Python float is a finite number, an infinity or NaN. Python's \<^verbatim>\<open>==\<close> on floats is
  false whenever an operand is NaN, also between NaN and itself.
\<close>

datatype pyfloat = Finite real | PosInf | NegInf | NaN

definition float_eq :: "pyfloat \<Rightarrow> pyfloat \<Rightarrow> bool" where
  "float_eq x y = (x \<noteq> NaN \<and> y \<noteq> NaN \<and> x = y)"

text \<open>
  The wire string is represented by the JSON document it spells: \<^verbatim>\<open>json.dumps\<close> builds
  the document, \<^verbatim>\<open>json.loads\<close> reads it. An object is the list of its members in the
  order of the text. The same datatype stands for the Python values \<^verbatim>\<open>json.loads\<close>
  returns: none, booleans, integers, floats (with the infinities and NaN, which
  \<^verbatim>\<open>json.dumps\<close> writes and \<^verbatim>\<open>json.loads\<close> reads), strings, lists and dicts.
\<close>

datatype json =
    JNull
  | JBool bool
  | JInt int
  | JFloat pyfloat
  | JString string
  | JList "json list"
  | JObject "(string \<times> json) list"

text \<open>
  A Python dict is an association list in insertion order. \<^verbatim>\<open>d[k] = v\<close> is
  \<^const>\<open>AList.update\<close>: it overwrites in place or appends. A dict display, a dict
  comprehension and the dict \<^verbatim>\<open>json.loads\<close> builds from an object all insert their
  pairs from left to right, so a later pair with the same key wins.
\<close>

type_synonym ('k, 'v) dict = "('k \<times> 'v) list"

definition py_dict :: "('k \<times> 'v) list \<Rightarrow> ('k, 'v) dict" where
  "py_dict kvs = fold (\<lambda>(k, v) d. AList.update k v d) kvs []"

text \<open>A Python set is the list of its elements in some iteration order, without repetition.\<close>

definition py_set :: "'k list \<Rightarrow> 'k list" where
  "py_set xs = remdups xs"

text \<open>Truthiness of an \<^verbatim>\<open>Optional[int]\<close>: \<^verbatim>\<open>None\<close> and \<^verbatim>\<open>0\<close> are false.\<close>

definition truthy :: "int option \<Rightarrow> bool" where
  "truthy x = (case x of None \<Rightarrow> False | Some n \<Rightarrow> n \<noteq> 0)"

definition py_or :: "int option \<Rightarrow> int option \<Rightarrow> int option" where
  "py_or a b = (if truthy a then a else b)"

text \<open>An exception leaves the function at once: the rest runs only on a value.\<close>

definition bind_err :: "error + 'x \<Rightarrow> ('x \<Rightarrow> error + 'y) \<Rightarrow> error + 'y" where
  "bind_err m f = (case m of Inl e \<Rightarrow> Inl e | Inr x \<Rightarrow> f x)"

text \<open>
  A \<^verbatim>\<open>datetime.datetime\<close> is a point on the time line, its \<open>instant\<close>, which orders
  datetimes. \<^verbatim>\<open>timestamp()\<close> returns the instant as a float, or raises where the platform
  cannot represent it, as it does for \<^verbatim>\<open>datetime.min\<close>: the second constructor.
\<close>

datatype datetime = Datetime real | DatetimeWithoutTimestamp real

fun instant :: "datetime \<Rightarrow> real" where
  "instant (Datetime t) = t"
| "instant (DatetimeWithoutTimestamp t) = t"

fun timestamp :: "datetime \<Rightarrow> error + pyfloat" where
  "timestamp (Datetime t) = Inr (Finite t)"
| "timestamp (DatetimeWithoutTimestamp t) = Inl ValueError"

subsection \<open>Collaborators\<close>

text \<open>
  Modelled from the spec: the partition subsets of partition.py and
  time\_window\_partitions.py, which are not among the sources. A subset is either a
  time-windowed subset, with its included time windows, or a subset of another kind,
  whose content is opaque.
\<close>

datatype TimeWindow = TimeWindow (tw_start: datetime) (tw_end: datetime)

datatype 'a PartitionsSubset =
    TimeWindowPartitionsSubset (included_time_windows: "TimeWindow list")
  | OtherPartitionsSubset 'a

text \<open>
  Modelled from the spec: a partitions definition, as the record of the methods the
  cursor calls. \<open>deserialize_subset\<close> answers \<open>None\<close> where the method raises;
  \<open>pd_start\<close> is \<open>Some s\<close> for a \<^verbatim>\<open>TimeWindowPartitionsDefinition\<close> whose
  \<^verbatim>\<open>start\<close> is \<open>s\<close>, and \<open>None\<close> for a definition of another kind.
\<close>

record 'a PartitionsDefinition =
  deserialize_subset :: "json \<Rightarrow> 'a PartitionsSubset option"
  empty_subset :: "'a PartitionsSubset"
  pd_start :: "datetime option"

text \<open>Modelled from the spec: the three lookups of asset\_graph.py the cursor consumes.\<close>

record ('k, 'a) AssetGraph =
  root_asset_keys :: "'k set"
  materializable_asset_keys :: "'k set"
  get_partitions_def :: "'k \<Rightarrow> 'a PartitionsDefinition option"

text \<open>
  Modelled from the spec: the evaluation record of
  auto\_materialize\_rule\_evaluation.py, opaque but for its asset key and its
  \<^verbatim>\<open>is_empty\<close> property.
\<close>

record ('k, 'b) AutoMaterializeAssetEvaluation =
  ev_asset_key :: 'k
  is_empty :: bool
  ev_body :: 'b

text \<open>
  Modelled from the spec: the string conversions of \<^verbatim>\<open>AssetKey\<close> (events.py), the
  \<^verbatim>\<open>serialize\<close> method of a partition subset, and the generic serialization layer
  (serdes.py). \<open>deserialize_value\<close> stands for \<^verbatim>\<open>deserialize_value\<close> followed by
  \<^verbatim>\<open>check.inst\<close>, and answers \<open>None\<close> where either raises.
\<close>

record ('k, 'a, 'b) Serdes =
  to_user_string :: "'k \<Rightarrow> string"
  from_user_string :: "string \<Rightarrow> 'k"
  serialize_subset :: "'a PartitionsSubset \<Rightarrow> string"
  serialize_value :: "('k, 'b) AutoMaterializeAssetEvaluation \<Rightarrow> string"
  deserialize_value :: "json \<Rightarrow> ('k, 'b) AutoMaterializeAssetEvaluation option"

text \<open>
  Modelled from the spec: \<^verbatim>\<open>AssetSubset\<close> (asset\_subset.py), an asset key with
  either a boolean or a partition subset. \<open>bool_value\<close> and \<open>subset_value\<close> check the
  kind of the value and raise on the other one.
\<close>

datatype 'a AssetSubsetValue = BoolValue bool | SubsetValue "'a PartitionsSubset"

record ('k, 'a) AssetSubset =
  as_asset_key :: 'k
  as_value :: "'a AssetSubsetValue"

definition is_partitioned :: "('k, 'a) AssetSubset \<Rightarrow> bool" where
  "is_partitioned s = (case as_value s of BoolValue _ \<Rightarrow> False | SubsetValue _ \<Rightarrow> True)"

definition bool_value :: "('k, 'a) AssetSubset \<Rightarrow> error + bool" where
  "bool_value s = (case as_value s of BoolValue b \<Rightarrow> Inr b | SubsetValue _ \<Rightarrow> Inl CheckError)"

definition subset_value :: "('k, 'a) AssetSubset \<Rightarrow> error + 'a PartitionsSubset" where
  "subset_value s = (case as_value s of BoolValue _ \<Rightarrow> Inl CheckError | SubsetValue p \<Rightarrow> Inr p)"

text \<open>
  Modelled from the spec: the operations of \<^verbatim>\<open>AssetSubset\<close> that the per-asset cursor
  calls: the asset partitions of a subset, the subset of a set of asset partitions, and
  the union, which fails on operands of different kinds.
\<close>

type_synonym 'k AssetKeyPartitionKey = "'k \<times> string option"

record ('k, 'a) AssetSubsetOps =
  asset_partitions :: "('k, 'a) AssetSubset \<Rightarrow> 'k AssetKeyPartitionKey set"
  from_asset_partitions_set ::
    "'k \<Rightarrow> 'a PartitionsDefinition option \<Rightarrow> 'k AssetKeyPartitionKey set \<Rightarrow> ('k, 'a) AssetSubset"
  subset_union :: "('k, 'a) AssetSubset \<Rightarrow> ('k, 'a) AssetSubset \<Rightarrow> error + ('k, 'a) AssetSubset"

subsection \<open>AssetDaemonAssetCursor\<close>

record ('k, 'a, 'b) AssetDaemonAssetCursor =
  ac_asset_key :: 'k
  ac_latest_storage_id :: "int option"
  ac_latest_evaluation_timestamp :: "pyfloat option"
  ac_latest_evaluation :: "('k, 'b) AutoMaterializeAssetEvaluation option"
  materialized_requested_or_discarded_subset :: "('k, 'a) AssetSubset"

definition asset_cursor_with_updates ::
  "('k, 'a) AssetSubsetOps \<Rightarrow> ('k, 'a, 'b) AssetDaemonAssetCursor \<Rightarrow> ('k, 'a) AssetGraph \<Rightarrow>
   ('k, 'a) AssetSubset \<Rightarrow> 'k AssetKeyPartitionKey set \<Rightarrow> 'k AssetKeyPartitionKey set \<Rightarrow>
   error + ('k, 'a, 'b) AssetDaemonAssetCursor" where
  "asset_cursor_with_updates ops self asset_graph newly_materialized_subset
      requested_asset_partitions discarded_asset_partitions =
    (if ac_asset_key self \<notin> root_asset_keys asset_graph then Inr self
     else
       let newly_materialized_requested_or_discarded_asset_partitions =
             asset_partitions ops newly_materialized_subset
               \<union> requested_asset_partitions \<union> discarded_asset_partitions;
           newly_materialized_requested_or_discarded_subset =
             from_asset_partitions_set ops (ac_asset_key self)
               (get_partitions_def asset_graph (ac_asset_key self))
               newly_materialized_requested_or_discarded_asset_partitions
       in case subset_union ops (materialized_requested_or_discarded_subset self)
                 newly_materialized_requested_or_discarded_subset of
            Inl e \<Rightarrow> Inl e
          | Inr u \<Rightarrow> Inr (self\<lparr>materialized_requested_or_discarded_subset := u\<rparr>))"

subsection \<open>AssetDaemonCursor\<close>

text \<open>
  A \<^verbatim>\<open>NamedTuple\<close> does not check the values of its fields. The types of the storage id,
  of the evaluation id, of the observe timestamps and of the evaluation timestamp are
  therefore parameters of the record. \<^verbatim>\<open>with_updates\<close> and \<^verbatim>\<open>serialize\<close> are read on a
  cursor of the annotated types (\<^verbatim>\<open>Optional[int]\<close>, \<^verbatim>\<open>int\<close>, \<^verbatim>\<open>float\<close>,
  \<^verbatim>\<open>Optional[float]\<close>); \<^verbatim>\<open>from_serialized\<close> stores the values of the document in these
  fields as they are, whatever they are.
\<close>

record ('k, 'a, 'b, 's, 'i, 'f, 't) AssetDaemonCursor =
  latest_storage_id :: 's
  handled_root_asset_keys :: "'k list"
  handled_root_partitions_by_asset_key :: "('k, 'a PartitionsSubset) dict"
  evaluation_id :: 'i
  last_observe_request_timestamp_by_asset_key :: "('k, 'f) dict"
  latest_evaluation_by_asset_key :: "('k, ('k, 'b) AutoMaterializeAssetEvaluation) dict"
  latest_evaluation_timestamp :: 't

type_synonym ('k, 'a, 'b) annotated_cursor =
  "('k, 'a, 'b, int option, int, pyfloat, pyfloat option) AssetDaemonCursor"

type_synonym ('k, 'a, 'b) loaded_cursor =
  "('k, 'a, 'b, json, json, json, json) AssetDaemonCursor"

definition with_updates ::
  "('k, 'a, 'b) annotated_cursor \<Rightarrow> int option \<Rightarrow> int \<Rightarrow> 'k list \<Rightarrow> pyfloat \<Rightarrow>
   ('k, 'b) AutoMaterializeAssetEvaluation list \<Rightarrow> datetime \<Rightarrow>
   ('k, 'a, 'b) AssetDaemonAssetCursor list \<Rightarrow> error + ('k, 'a, 'b) annotated_cursor" where
  "with_updates self new_latest_storage_id new_evaluation_id newly_observe_requested_asset_keys
      observe_request_timestamp evaluations evaluation_time asset_cursors =
    (let result_last_observe_request_timestamp_by_asset_key =
           fold (\<lambda>asset_key d. AList.update asset_key observe_request_timestamp d)
             newly_observe_requested_asset_keys
             (last_observe_request_timestamp_by_asset_key self)
     in
     if truthy new_latest_storage_id \<and> truthy (latest_storage_id self)
          \<and> (case (new_latest_storage_id, latest_storage_id self) of
                (Some n, Some prior) \<Rightarrow> \<not> n \<ge> prior
              | _ \<Rightarrow> False)
     then Inl CheckError
     else
       bind_err (timestamp evaluation_time) (\<lambda>evaluation_timestamp.
       Inr \<lparr> latest_storage_id = py_or new_latest_storage_id (latest_storage_id self),
             handled_root_asset_keys =
               py_set [ac_asset_key cursor. cursor \<leftarrow> asset_cursors,
                 \<not> is_partitioned (materialized_requested_or_discarded_subset cursor)
                 \<and> bool_value (materialized_requested_or_discarded_subset cursor) = Inr True],
             handled_root_partitions_by_asset_key =
               py_dict [(ac_asset_key cursor, p). cursor \<leftarrow> asset_cursors,
                 is_partitioned (materialized_requested_or_discarded_subset cursor),
                 Inr p \<leftarrow> [subset_value (materialized_requested_or_discarded_subset cursor)]],
             evaluation_id = new_evaluation_id,
             last_observe_request_timestamp_by_asset_key =
               result_last_observe_request_timestamp_by_asset_key,
             latest_evaluation_by_asset_key =
               py_dict [(ev_asset_key evaluation, evaluation). evaluation \<leftarrow> evaluations,
                 \<not> is_empty evaluation],
             latest_evaluation_timestamp = Some evaluation_timestamp \<rparr>))"

definition empty :: "('k, 'a, 'b) annotated_cursor" where
  "empty = \<lparr> latest_storage_id = None,
             handled_root_asset_keys = [],
             handled_root_partitions_by_asset_key = [],
             evaluation_id = 0,
             last_observe_request_timestamp_by_asset_key = [],
             latest_evaluation_by_asset_key = [],
             latest_evaluation_timestamp = None \<rparr>"

subsection \<open>Deserialization\<close>

text \<open>The seven values \<^verbatim>\<open>from_serialized\<close> reads off the document, before decoding.\<close>

record serialized_fields =
  s_latest_storage_id :: json
  s_handled_root_asset_keys :: json
  s_handled_root_partitions_by_asset_key :: json
  s_evaluation_id :: json
  s_last_observe_request_timestamp_by_asset_key :: json
  s_latest_evaluation_by_asset_key :: json
  s_latest_evaluation_timestamp :: json

text \<open>\<^verbatim>\<open>d[k]\<close> on a dict raises \<^verbatim>\<open>KeyError\<close> on a missing key; \<^verbatim>\<open>d.get(k, dflt)\<close> does not.\<close>

definition subscript :: "('k, 'v) dict \<Rightarrow> 'k \<Rightarrow> error + 'v" where
  "subscript d k = (case map_of d k of None \<Rightarrow> Inl KeyError | Some v \<Rightarrow> Inr v)"

definition dict_get_default :: "('k, 'v) dict \<Rightarrow> 'k \<Rightarrow> 'v \<Rightarrow> 'v" where
  "dict_get_default d k dflt = (case map_of d k of None \<Rightarrow> dflt | Some v \<Rightarrow> v)"

text \<open>
  The branch on the shape of the document. A list must have three or four elements;
  anything that is neither a list nor an object cannot be subscripted by a string.
\<close>

definition unpack_fields :: "json \<Rightarrow> error + serialized_fields" where
  "unpack_fields data =
    (case data of
       JList xs \<Rightarrow>
         (case xs of
            [a, b, c] \<Rightarrow>
              Inr \<lparr> s_latest_storage_id = a, s_handled_root_asset_keys = b,
                    s_handled_root_partitions_by_asset_key = c, s_evaluation_id = JInt 0,
                    s_last_observe_request_timestamp_by_asset_key = JObject [],
                    s_latest_evaluation_by_asset_key = JObject [],
                    s_latest_evaluation_timestamp = JInt 0 \<rparr>
          | [a, b, c, d] \<Rightarrow>
              Inr \<lparr> s_latest_storage_id = a, s_handled_root_asset_keys = b,
                    s_handled_root_partitions_by_asset_key = c, s_evaluation_id = d,
                    s_last_observe_request_timestamp_by_asset_key = JObject [],
                    s_latest_evaluation_by_asset_key = JObject [],
                    s_latest_evaluation_timestamp = JInt 0 \<rparr>
          | _ \<Rightarrow> Inl CheckError)
     | JObject kvs \<Rightarrow>
         (let d = py_dict kvs in
          bind_err (subscript d ''latest_storage_id'') (\<lambda>a.
          bind_err (subscript d ''handled_root_asset_keys'') (\<lambda>b.
          bind_err (subscript d ''handled_root_partitions_by_asset_key'') (\<lambda>c.
          bind_err (subscript d ''evaluation_id'') (\<lambda>e.
            Inr \<lparr> s_latest_storage_id = a, s_handled_root_asset_keys = b,
                  s_handled_root_partitions_by_asset_key = c, s_evaluation_id = e,
                  s_last_observe_request_timestamp_by_asset_key =
                    dict_get_default d ''last_observe_request_timestamp_by_asset_key'' (JObject []),
                  s_latest_evaluation_by_asset_key =
                    dict_get_default d ''latest_evaluation_by_asset_key'' (JObject []),
                  s_latest_evaluation_timestamp =
                    dict_get_default d ''latest_evaluation_timestamp'' (JInt 0) \<rparr>)))))
     | _ \<Rightarrow> Inl TypeError)"

text \<open>\<^verbatim>\<open>x.items()\<close>: only a dict has the method.\<close>

definition items :: "json \<Rightarrow> error + (string, json) dict" where
  "items j = (case j of JObject kvs \<Rightarrow> Inr (py_dict kvs) | _ \<Rightarrow> Inl AttributeError)"

text \<open>
  The test of the \<^verbatim>\<open>try\<close> block: the subset and the definition are both time-windowed
  and some included window starts before the definition's start.
\<close>

definition starts_before_start :: "'a PartitionsSubset \<Rightarrow> 'a PartitionsDefinition \<Rightarrow> bool" where
  "starts_before_start psubset partitions_def =
    (case psubset of
       TimeWindowPartitionsSubset windows \<Rightarrow>
         (case pd_start partitions_def of
            Some s \<Rightarrow> list_ex (\<lambda>time_window. instant (tw_start time_window) < instant s) windows
          | None \<Rightarrow> False)
     | OtherPartitionsSubset _ \<Rightarrow> False)"

text \<open>The \<^verbatim>\<open>try\<close> block with its bare \<^verbatim>\<open>except\<close>: it always yields a subset.\<close>

definition decode_subset :: "'a PartitionsDefinition \<Rightarrow> json \<Rightarrow> 'a PartitionsSubset" where
  "decode_subset partitions_def serialized_subset =
    (case deserialize_subset partitions_def serialized_subset of
       None \<Rightarrow> empty_subset partitions_def
     | Some psubset \<Rightarrow>
         if starts_before_start psubset partitions_def then empty_subset partitions_def
         else psubset)"

fun handled_root_partitions_loop ::
  "('k, 'a, 'b) Serdes \<Rightarrow> ('k, 'a) AssetGraph \<Rightarrow> (string \<times> json) list \<Rightarrow>
   ('k, 'a PartitionsSubset) dict \<Rightarrow> ('k, 'a PartitionsSubset) dict" where
  "handled_root_partitions_loop sd asset_graph [] acc = acc"
| "handled_root_partitions_loop sd asset_graph ((key_str, serialized_subset) # rest) acc =
    (let key = from_user_string sd key_str in
     if key \<notin> materializable_asset_keys asset_graph
     then handled_root_partitions_loop sd asset_graph rest acc
     else
       case get_partitions_def asset_graph key of
         None \<Rightarrow> handled_root_partitions_loop sd asset_graph rest acc
       | Some partitions_def \<Rightarrow>
           handled_root_partitions_loop sd asset_graph rest
             (AList.update key (decode_subset partitions_def serialized_subset) acc))"

fun latest_evaluation_loop ::
  "('k, 'a, 'b) Serdes \<Rightarrow> (string \<times> json) list \<Rightarrow>
   ('k, ('k, 'b) AutoMaterializeAssetEvaluation) dict \<Rightarrow>
   error + ('k, ('k, 'b) AutoMaterializeAssetEvaluation) dict" where
  "latest_evaluation_loop sd [] acc = Inr acc"
| "latest_evaluation_loop sd ((key_str, serialized_evaluation) # rest) acc =
    (let key = from_user_string sd key_str in
     case deserialize_value sd serialized_evaluation of
       None \<Rightarrow> Inl DeserializationError
     | Some evaluation \<Rightarrow> latest_evaluation_loop sd rest (AList.update key evaluation acc))"

text \<open>
  The key strings a \<^verbatim>\<open>for key_str in x\<close> yields: the elements of a list, the
  characters of a string, the keys of a dict; nothing else can be iterated.
  \<^verbatim>\<open>AssetKey.from_user_string\<close> is an operation on strings: it raises on an element that
  is not a string.
\<close>

fun strings_of :: "json list \<Rightarrow> error + string list" where
  "strings_of [] = Inr []"
| "strings_of (JString s # rest) =
    bind_err (strings_of rest) (\<lambda>ss. Inr (s # ss))"
| "strings_of (_ # rest) = Inl AttributeError"

definition iter_key_strings :: "json \<Rightarrow> error + string list" where
  "iter_key_strings j =
    (case j of
       JList xs \<Rightarrow> strings_of xs
     | JString s \<Rightarrow> Inr (map (\<lambda>c. [c]) s)
     | JObject kvs \<Rightarrow> Inr (map fst (py_dict kvs))
     | _ \<Rightarrow> Inl TypeError)"

text \<open>
  The storage id, the evaluation id and the timestamps go into the cursor as the document
  has them: nothing checks them against the annotations.
\<close>

definition from_serialized ::
  "('k, 'a, 'b) Serdes \<Rightarrow> json \<Rightarrow> ('k, 'a) AssetGraph \<Rightarrow> error + ('k, 'a, 'b) loaded_cursor" where
  "from_serialized sd data asset_graph =
    bind_err (unpack_fields data) (\<lambda>f.
    bind_err (items (s_handled_root_partitions_by_asset_key f)) (\<lambda>partition_items.
    let handled_root_partitions = handled_root_partitions_loop sd asset_graph partition_items [] in
    bind_err (items (s_latest_evaluation_by_asset_key f)) (\<lambda>evaluation_items.
    bind_err (latest_evaluation_loop sd evaluation_items []) (\<lambda>latest_evaluations.
    bind_err (iter_key_strings (s_handled_root_asset_keys f)) (\<lambda>key_strs.
    bind_err (items (s_last_observe_request_timestamp_by_asset_key f)) (\<lambda>ts_items.
      Inr \<lparr> latest_storage_id = s_latest_storage_id f,
            handled_root_asset_keys = py_set (map (from_user_string sd) key_strs),
            handled_root_partitions_by_asset_key = handled_root_partitions,
            evaluation_id = s_evaluation_id f,
            last_observe_request_timestamp_by_asset_key =
              py_dict [(from_user_string sd key_str, ts). (key_str, ts) \<leftarrow> ts_items],
            latest_evaluation_by_asset_key = latest_evaluations,
            latest_evaluation_timestamp = s_latest_evaluation_timestamp f \<rparr>))))))"

text \<open>The peek returns the element of the document as it is; \<open>JNull\<close> is \<^verbatim>\<open>None\<close>.\<close>

definition get_evaluation_id_from_serialized :: "json \<Rightarrow> error + json" where
  "get_evaluation_id_from_serialized data =
    (case data of
       JList xs \<Rightarrow>
         (case xs of
            [a, b, c] \<Rightarrow> Inr JNull
          | [a, b, c, d] \<Rightarrow> Inr d
          | _ \<Rightarrow> Inl CheckError)
     | JObject kvs \<Rightarrow> subscript (py_dict kvs) ''evaluation_id''
     | _ \<Rightarrow> Inl TypeError)"

subsection \<open>Serialization\<close>

definition json_of_optional_int :: "int option \<Rightarrow> json" where
  "json_of_optional_int x = (case x of None \<Rightarrow> JNull | Some n \<Rightarrow> JInt n)"

definition json_of_optional_float :: "pyfloat option \<Rightarrow> json" where
  "json_of_optional_float x = (case x of None \<Rightarrow> JNull | Some r \<Rightarrow> JFloat r)"

definition serialize :: "('k, 'a, 'b) Serdes \<Rightarrow> ('k, 'a, 'b) annotated_cursor \<Rightarrow> json" where
  "serialize sd self =
    (let serializable_handled_root_partitions_by_asset_key =
           py_dict [(to_user_string sd key, JString (serialize_subset sd psubset)).
                    (key, psubset) \<leftarrow> handled_root_partitions_by_asset_key self]
     in JObject (py_dict
       [(''latest_storage_id'', json_of_optional_int (latest_storage_id self)),
        (''handled_root_asset_keys'',
           JList [JString (to_user_string sd key). key \<leftarrow> handled_root_asset_keys self]),
        (''handled_root_partitions_by_asset_key'',
           JObject serializable_handled_root_partitions_by_asset_key),
        (''evaluation_id'', JInt (evaluation_id self)),
        (''last_observe_request_timestamp_by_asset_key'',
           JObject (py_dict [(to_user_string sd key, JFloat ts).
                             (key, ts) \<leftarrow> last_observe_request_timestamp_by_asset_key self])),
        (''latest_evaluation_by_asset_key'',
           JObject (py_dict [(to_user_string sd key, JString (serialize_value sd evaluation)).
                             (key, evaluation) \<leftarrow> latest_evaluation_by_asset_key self])),
        (''latest_evaluation_timestamp'',
           json_of_optional_float (latest_evaluation_timestamp self))]))"

subsection \<open>Ticks\<close>

text \<open>
  The scheduler loop that calls \<^verbatim>\<open>with_updates\<close> once per tick is outside the module.
  A tick is the record of the seven arguments of one call; \<open>run_ticks\<close> folds the calls
  from a starting cursor, stops at the first failure, and returns the cursors in the order
  they were produced.
\<close>

record ('k, 'a, 'b) tick =
  t_latest_storage_id :: "int option"
  t_evaluation_id :: int
  t_newly_observe_requested_asset_keys :: "'k list"
  t_observe_request_timestamp :: pyfloat
  t_evaluations :: "('k, 'b) AutoMaterializeAssetEvaluation list"
  t_evaluation_time :: datetime
  t_asset_cursors :: "('k, 'a, 'b) AssetDaemonAssetCursor list"

definition tick_update ::
  "('k, 'a, 'b) annotated_cursor \<Rightarrow> ('k, 'a, 'b) tick \<Rightarrow> error + ('k, 'a, 'b) annotated_cursor" where
  "tick_update c t =
    with_updates c (t_latest_storage_id t) (t_evaluation_id t)
      (t_newly_observe_requested_asset_keys t) (t_observe_request_timestamp t)
      (t_evaluations t) (t_evaluation_time t) (t_asset_cursors t)"

fun run_ticks ::
  "('k, 'a, 'b) annotated_cursor \<Rightarrow> ('k, 'a, 'b) tick list \<Rightarrow>
   error + ('k, 'a, 'b) annotated_cursor list" where
  "run_ticks c [] = Inr []"
| "run_ticks c (t # ts) =
    bind_err (tick_update c t) (\<lambda>c'. bind_err (run_ticks c' ts) (\<lambda>cs. Inr (c' # cs)))"

subsection \<open>Equality of cursors\<close>

text \<open>
  Python's \<^verbatim>\<open>==\<close> between a value of a document and a value of an annotated type. Numbers
  compare by value across \<^verbatim>\<open>bool\<close>, \<^verbatim>\<open>int\<close> and \<^verbatim>\<open>float\<close>; NaN equals nothing; a
  string, a list or a dict equals no number and is not \<^verbatim>\<open>None\<close>.
\<close>

definition json_float_eq :: "json \<Rightarrow> pyfloat \<Rightarrow> bool" where
  "json_float_eq j x =
    (case j of
       JBool b \<Rightarrow> float_eq (Finite (if b then 1 else 0)) x
     | JInt n \<Rightarrow> float_eq (Finite (of_int n)) x
     | JFloat y \<Rightarrow> float_eq y x
     | _ \<Rightarrow> False)"

definition json_int_eq :: "json \<Rightarrow> int \<Rightarrow> bool" where
  "json_int_eq j n = json_float_eq j (Finite (of_int n))"

definition json_optional_int_eq :: "json \<Rightarrow> int option \<Rightarrow> bool" where
  "json_optional_int_eq j x = (case x of None \<Rightarrow> j = JNull | Some n \<Rightarrow> json_int_eq j n)"

definition json_optional_float_eq :: "json \<Rightarrow> pyfloat option \<Rightarrow> bool" where
  "json_optional_float_eq j x = (case x of None \<Rightarrow> j = JNull | Some y \<Rightarrow> json_float_eq j y)"

text \<open>
  Python's \<^verbatim>\<open>==\<close> on dicts: as many keys, and every key of the one is a key of the other
  with an equal value. The order of the keys plays no part.
\<close>

definition dict_eq :: "('v \<Rightarrow> 'w \<Rightarrow> bool) \<Rightarrow> ('k, 'v) dict \<Rightarrow> ('k, 'w) dict \<Rightarrow> bool" where
  "dict_eq value_eq d d' =
    (length d = length d'
     \<and> list_all (\<lambda>(k, v). case map_of d' k of None \<Rightarrow> False | Some v' \<Rightarrow> value_eq v v') d)"

text \<open>
  \<^verbatim>\<open>==\<close> between a deserialized cursor and a cursor of the annotated types, field by
  field; the handled root asset keys compare as sets.
\<close>

definition cursor_eq :: "('k, 'a, 'b) loaded_cursor \<Rightarrow> ('k, 'a, 'b) annotated_cursor \<Rightarrow> bool" where
  "cursor_eq c' c =
    (json_optional_int_eq (latest_storage_id c') (latest_storage_id c)
     \<and> set (handled_root_asset_keys c') = set (handled_root_asset_keys c)
     \<and> dict_eq (=) (handled_root_partitions_by_asset_key c')
           (handled_root_partitions_by_asset_key c)
     \<and> json_int_eq (evaluation_id c') (evaluation_id c)
     \<and> dict_eq json_float_eq (last_observe_request_timestamp_by_asset_key c')
           (last_observe_request_timestamp_by_asset_key c)
     \<and> dict_eq (=) (latest_evaluation_by_asset_key c') (latest_evaluation_by_asset_key c)
     \<and> json_optional_float_eq (latest_evaluation_timestamp c') (latest_evaluation_timestamp c))"

subsection \<open>Valid cursors\<close>

text \<open>
  The representation invariant of Python's containers: a set holds an element once, a
  dict holds a key once.
\<close>

definition wf_cursor :: "('k, 'a, 'b) annotated_cursor \<Rightarrow> bool" where
  "wf_cursor c =
    (distinct (handled_root_asset_keys c)
     \<and> distinct (map fst (handled_root_partitions_by_asset_key c))
     \<and> distinct (map fst (last_observe_request_timestamp_by_asset_key c))
     \<and> distinct (map fst (latest_evaluation_by_asset_key c)))"

text \<open>
  The collaborators read back what they wrote, on the values a cursor holds: the string
  of each of its asset keys reads back as the key, and the serialized form of each of its
  evaluations reads back as the evaluation.
\<close>

definition cursor_keys :: "('k, 'a, 'b) annotated_cursor \<Rightarrow> 'k set" where
  "cursor_keys c =
    set (handled_root_asset_keys c)
    \<union> fst ` set (handled_root_partitions_by_asset_key c)
    \<union> fst ` set (last_observe_request_timestamp_by_asset_key c)
    \<union> fst ` set (latest_evaluation_by_asset_key c)"

definition serdes_roundtrip :: "('k, 'a, 'b) Serdes \<Rightarrow> ('k, 'a, 'b) annotated_cursor \<Rightarrow> bool" where
  "serdes_roundtrip sd c =
    ((\<forall>k \<in> cursor_keys c. from_user_string sd (to_user_string sd k) = k)
     \<and> (\<forall>(k, e) \<in> set (latest_evaluation_by_asset_key c).
           deserialize_value sd (JString (serialize_value sd e)) = Some e))"

text \<open>
  A valid cursor: every key of its handled partitions is a materializable asset of the
  graph whose current partitions definition decodes the serialized subset to the subset.
\<close>

definition valid_cursor ::
  "('k, 'a, 'b) Serdes \<Rightarrow> ('k, 'a) AssetGraph \<Rightarrow> ('k, 'a, 'b) annotated_cursor \<Rightarrow> bool" where
  "valid_cursor sd asset_graph c =
    (\<forall>(k, p) \<in> set (handled_root_partitions_by_asset_key c).
       k \<in> materializable_asset_keys asset_graph
       \<and> (\<exists>d. get_partitions_def asset_graph k = Some d
              \<and> deserialize_subset d (JString (serialize_subset sd p)) = Some p))"

text \<open>
  Every window of a handled time-windowed subset starts at or after the start of its
  asset's partitions definition, where that definition is time-windowed.
\<close>

definition no_window_before_start ::
  "('k, 'a) AssetGraph \<Rightarrow> ('k, 'a, 'b) annotated_cursor \<Rightarrow> bool" where
  "no_window_before_start asset_graph c =
    (\<forall>(k, p) \<in> set (handled_root_partitions_by_asset_key c).
       \<forall>windows d s. p = TimeWindowPartitionsSubset windows
         \<and> get_partitions_def asset_graph k = Some d \<and> pd_start d = Some s \<longrightarrow>
         (\<forall>w \<in> set windows. instant s \<le> instant (tw_start w)))"

text \<open>No timestamp of the cursor is NaN.\<close>

definition no_nan_timestamp :: "('k, 'a, 'b) annotated_cursor \<Rightarrow> bool" where
  "no_nan_timestamp c =
    (latest_evaluation_timestamp c \<noteq> Some NaN
     \<and> (\<forall>(k, t) \<in> set (last_observe_request_timestamp_by_asset_key c). t \<noteq> NaN))"

subsection \<open>Concrete collaborators for evaluation\<close>

text \<open>
  Asset keys are their own strings. An evaluation is serialized as its asset key; the
  time-windowed subset of the window from 0 to 10 as the string \<open>tw\<close>, any other
  time-windowed subset as \<open>tw-late\<close>, a subset of another kind as \<open>other\<close>.
\<close>

definition ex_window :: "unit PartitionsSubset" where
  "ex_window = TimeWindowPartitionsSubset [TimeWindow (Datetime 0) (Datetime 10)]"

definition ex_late_window :: "unit PartitionsSubset" where
  "ex_late_window = TimeWindowPartitionsSubset [TimeWindow (Datetime 6) (Datetime 10)]"

definition ex_serdes :: "(string, unit, unit) Serdes" where
  "ex_serdes =
    \<lparr> to_user_string = (\<lambda>k. k),
      from_user_string = (\<lambda>s. s),
      serialize_subset =
        (\<lambda>p. case p of
               TimeWindowPartitionsSubset ws \<Rightarrow> (if p = ex_window then ''tw'' else ''tw-late'')
             | OtherPartitionsSubset u \<Rightarrow> ''other''),
      serialize_value = (\<lambda>e. ev_asset_key e),
      deserialize_value =
        (\<lambda>j. case j of
               JString s \<Rightarrow> Some \<lparr> ev_asset_key = s, is_empty = False, ev_body = () \<rparr>
             | _ \<Rightarrow> None) \<rparr>"

text \<open>
  A time-windowed partitions definition that starts at 5. It decodes \<open>tw\<close> to the
  window from 0 to 10, \<open>tw-late\<close> to the window from 6 to 10 and \<open>other\<close> to the
  opaque subset, and raises on anything else.
\<close>

definition ex_partitions_def :: "unit PartitionsDefinition" where
  "ex_partitions_def =
    \<lparr> deserialize_subset =
        (\<lambda>j. if j = JString ''tw'' then Some ex_window
             else if j = JString ''tw-late'' then Some ex_late_window
             else if j = JString ''other'' then Some (OtherPartitionsSubset ())
             else None),
      empty_subset = TimeWindowPartitionsSubset [],
      pd_start = Some (Datetime 5) \<rparr>"

text \<open>
  The assets \<open>a\<close>, \<open>b\<close> and \<open>d\<close> are materializable, \<open>a\<close> is the only root, and
  \<open>b\<close> and \<open>d\<close> are partitioned.
\<close>

definition ex_graph :: "(string, unit) AssetGraph" where
  "ex_graph =
    \<lparr> root_asset_keys = {''a''},
      materializable_asset_keys = {''a'', ''b'', ''d''},
      get_partitions_def =
        (\<lambda>k. if k = ''b'' \<or> k = ''d'' then Some ex_partitions_def else None) \<rparr>"

definition ex_evaluation :: "bool \<Rightarrow> string \<Rightarrow> (string, unit) AutoMaterializeAssetEvaluation" where
  "ex_evaluation e k = \<lparr> ev_asset_key = k, is_empty = e, ev_body = () \<rparr>"

definition ex_asset_cursor ::
  "string \<Rightarrow> unit AssetSubsetValue \<Rightarrow> (string, unit, unit) AssetDaemonAssetCursor" where
  "ex_asset_cursor k v =
    \<lparr> ac_asset_key = k, ac_latest_storage_id = None, ac_latest_evaluation_timestamp = None,
      ac_latest_evaluation = None,
      materialized_requested_or_discarded_subset = \<lparr> as_asset_key = k, as_value = v \<rparr> \<rparr>"

definition ex_cursor ::
  "int option \<Rightarrow> (string, unit PartitionsSubset) dict \<Rightarrow> (string, unit, unit) annotated_cursor" where
  "ex_cursor storage_id partitions =
    \<lparr> latest_storage_id = storage_id,
      handled_root_asset_keys = [''a''],
      handled_root_partitions_by_asset_key = partitions,
      evaluation_id = 7,
      last_observe_request_timestamp_by_asset_key = [(''c'', Finite 3)],
      latest_evaluation_by_asset_key = [(''a'', ex_evaluation False ''a'')],
      latest_evaluation_timestamp = Some (Finite 4) \<rparr>"

definition ex_tick :: "int option \<Rightarrow> (string, unit, unit) tick" where
  "ex_tick storage_id =
    \<lparr> t_latest_storage_id = storage_id, t_evaluation_id = 8,
      t_newly_observe_requested_asset_keys = [], t_observe_request_timestamp = Finite 0,
      t_evaluations = [], t_evaluation_time = Datetime 9, t_asset_cursors = [] \<rparr>"

text \<open>
  A serialized cursor of the map format, with one evaluation and three handled
  partitions: \<open>tw\<close> for \<open>b\<close>, a string that no definition decodes for \<open>d\<close>, and
  an entry for \<open>c\<close>, which is not materializable.
\<close>

definition ex_document :: json where
  "ex_document = JObject
     [(''latest_storage_id'', JInt 100),
      (''handled_root_asset_keys'', JList [JString ''a'']),
      (''handled_root_partitions_by_asset_key'',
         JObject [(''b'', JString ''tw''), (''d'', JString ''garbage''), (''c'', JInt 1)]),
      (''evaluation_id'', JInt 7),
      (''latest_evaluation_by_asset_key'', JObject [(''a'', JString ''a'')])]"

text \<open>
  The operations on the subsets of unpartitioned assets: a subset holds the one asset
  partition of its asset when its value is true, the subset of a set of asset partitions
  is true when the set is not empty, and the union of two boolean subsets is their
  disjunction.
\<close>

definition ex_ops :: "(string, unit) AssetSubsetOps" where
  "ex_ops =
    \<lparr> asset_partitions =
        (\<lambda>s. case as_value s of
               BoolValue b \<Rightarrow> (if b then {(as_asset_key s, None)} else {})
             | SubsetValue p \<Rightarrow> {}),
      from_asset_partitions_set =
        (\<lambda>k d aps. \<lparr> as_asset_key = k, as_value = BoolValue (aps \<noteq> {}) \<rparr>),
      subset_union =
        (\<lambda>s t. case (as_value s, as_value t) of
                 (BoolValue a, BoolValue b) \<Rightarrow> Inr (s\<lparr> as_value := BoolValue (a \<or> b) \<rparr>)
               | _ \<Rightarrow> Inl CheckError) \<rparr>"

text \<open>
  Asset keys as paths: the user string joins the components of the path with a slash,
  and reading a string splits it at every slash.
\<close>

fun join_path :: "string list \<Rightarrow> string" where
  "join_path [] = []"
| "join_path [x] = x"
| "join_path (x # y # ys) = x @ CHR ''/'' # join_path (y # ys)"

fun split_path :: "string \<Rightarrow> string list" where
  "split_path [] = [[]]"
| "split_path (c # cs) =
    (if c = CHR ''/'' then [] # split_path cs
     else (case split_path cs of [] \<Rightarrow> [[c]] | p # ps \<Rightarrow> (c # p) # ps))"

definition ex_path_serdes :: "(string list, unit, unit) Serdes" where
  "ex_path_serdes =
    \<lparr> to_user_string = join_path,
      from_user_string = split_path,
      serialize_subset = (\<lambda>p. ''other''),
      serialize_value = (\<lambda>e. join_path (ev_asset_key e)),
      deserialize_value =
        (\<lambda>j. case j of
               JString s \<Rightarrow> Some \<lparr> ev_asset_key = split_path s, is_empty = False, ev_body = () \<rparr>
             | _ \<Rightarrow> None) \<rparr>"

definition ex_path_graph :: "(string list, unit) AssetGraph" where
  "ex_path_graph =
    \<lparr> root_asset_keys = {}, materializable_asset_keys = {},
      get_partitions_def = (\<lambda>k. None) \<rparr>"

section \<open>Properties\<close>

subsection \<open>Python containers\<close>

lemma map_of_fold_update:
  "map_of (fold (\<lambda>(k, v) d. AList.update k v d) kvs acc) = map_of (rev kvs @ acc)"
proof (induction kvs arbitrary: acc)
  case Nil
  show ?case by simp
next
  case (Cons kv kvs)
  obtain k v where kv: "kv = (k, v)" by (cases kv)
  show ?case
    by (simp add: kv Cons.IH update_conv' map_add_upd flip: map_add_assoc; simp add: fun_eq_iff map_add_def split: option.splits)
qed

lemma map_of_py_dict: "map_of (py_dict kvs) = map_of (rev kvs)"
  by (simp add: py_dict_def map_of_fold_update)

lemma distinct_fold_update:
  "distinct (map fst acc) \<Longrightarrow> distinct (map fst (fold (\<lambda>(k, v) d. AList.update k v d) kvs acc))"
  by (induction kvs arbitrary: acc) (auto simp: distinct_update split: prod.splits)

lemma distinct_py_dict: "distinct (map fst (py_dict kvs))"
  by (simp add: py_dict_def distinct_fold_update)

lemma set_py_dict: "(k, v) \<in> set (py_dict kvs) \<longleftrightarrow> map_of (rev kvs) k = Some v"
  using distinct_py_dict[of kvs] map_of_py_dict[of kvs]
  by (metis map_of_eq_Some_iff)

lemma keys_py_dict: "fst ` set (py_dict kvs) = fst ` set kvs"
proof -
  have "fst ` set (py_dict kvs) = dom (map_of (py_dict kvs))" by (simp add: dom_map_of_conv_image_fst)
  also have "\<dots> = dom (map_of (rev kvs))" by (simp add: map_of_py_dict)
  also have "\<dots> = fst ` set kvs" by (simp add: dom_map_of_conv_image_fst)
  finally show ?thesis .
qed

lemma py_dict_member: "(k, v) \<in> set (py_dict kvs) \<Longrightarrow> (k, v) \<in> set kvs"
  by (simp add: set_py_dict) (metis map_of_SomeD set_rev)

lemma set_py_set: "set (py_set xs) = set xs"
  by (simp add: py_set_def)


subsection \<open>The result of \<open>with_updates\<close>\<close>

lemma timestamp_error: "timestamp et = Inl e \<Longrightarrow> e = ValueError"
  by (cases et) simp_all

lemma bind_err_Inr_iff: "bind_err m f = Inr y \<longleftrightarrow> (\<exists>x. m = Inr x \<and> f x = Inr y)"
  by (cases m) (simp_all add: bind_err_def)

lemma bind_err_Inl_iff: "bind_err m f = Inl e \<longleftrightarrow> (m = Inl e \<or> (\<exists>x. m = Inr x \<and> f x = Inl e))"
  by (cases m) (simp_all add: bind_err_def)

lemma bind_err_simps:
  "bind_err (Inl e) f = Inl e" "bind_err (Inr x) f = f x"
  by (simp_all add: bind_err_def)

lemma with_updates_Inl_iff:
  "with_updates self new eid keys ots evs et acs = Inl e \<longleftrightarrow>
     (if (\<exists>n p. new = Some n \<and> latest_storage_id self = Some p \<and> n \<noteq> 0 \<and> p \<noteq> 0 \<and> n < p)
      then e = CheckError else timestamp et = Inl e)"
  by (auto simp: with_updates_def truthy_def Let_def bind_err_Inl_iff split: option.splits)

lemma with_updates_fails_iff:
  "with_updates self new eid keys ots evs et acs = Inl CheckError \<longleftrightarrow>
     (\<exists>n p. new = Some n \<and> latest_storage_id self = Some p \<and> n \<noteq> 0 \<and> p \<noteq> 0 \<and> n < p)"
  unfolding with_updates_Inl_iff using timestamp_error[of et CheckError] by auto

lemma with_updates_returns:
  assumes "\<not> (\<exists>n p. new = Some n \<and> latest_storage_id self = Some p \<and> n \<noteq> 0 \<and> p \<noteq> 0 \<and> n < p)"
    and "timestamp et = Inr ts"
  shows "\<exists>r. with_updates self new eid keys ots evs et acs = Inr r"
proof (cases "with_updates self new eid keys ots evs et acs")
  case (Inl e)
  with assms show ?thesis unfolding with_updates_Inl_iff by simp
next
  case (Inr r)
  then show ?thesis by blast
qed

lemma with_updates_storage_id:
  "with_updates self new eid keys ots evs et acs = Inr r \<Longrightarrow>
     latest_storage_id r = py_or new (latest_storage_id self)"
  by (auto simp: with_updates_def Let_def bind_err_Inr_iff split: if_splits)

lemma with_updates_handled_keys:
  "with_updates self new eid keys ots evs et acs = Inr r \<Longrightarrow>
     handled_root_asset_keys r =
       py_set [ac_asset_key cursor. cursor \<leftarrow> acs,
                 \<not> is_partitioned (materialized_requested_or_discarded_subset cursor)
                 \<and> bool_value (materialized_requested_or_discarded_subset cursor) = Inr True]"
  by (auto simp: with_updates_def Let_def bind_err_Inr_iff split: if_splits)

lemma with_updates_handled_partitions:
  "with_updates self new eid keys ots evs et acs = Inr r \<Longrightarrow>
     handled_root_partitions_by_asset_key r =
       py_dict [(ac_asset_key cursor, p). cursor \<leftarrow> acs,
                 is_partitioned (materialized_requested_or_discarded_subset cursor),
                 Inr p \<leftarrow> [subset_value (materialized_requested_or_discarded_subset cursor)]]"
  by (auto simp: with_updates_def Let_def bind_err_Inr_iff split: if_splits)

lemma with_updates_latest_evaluations:
  "with_updates self new eid keys ots evs et acs = Inr r \<Longrightarrow>
     latest_evaluation_by_asset_key r =
       py_dict [(ev_asset_key evaluation, evaluation). evaluation \<leftarrow> evs, \<not> is_empty evaluation]"
  by (auto simp: with_updates_def Let_def bind_err_Inr_iff split: if_splits)

lemma unpartitioned_true_iff:
  "(\<not> is_partitioned s \<and> bool_value s = Inr True) \<longleftrightarrow> as_value s = BoolValue True"
  by (auto simp: is_partitioned_def bool_value_def split: AssetSubsetValue.splits)

lemma partitioned_iff: "is_partitioned s \<longleftrightarrow> (\<exists>p. as_value s = SubsetValue p)"
  by (auto simp: is_partitioned_def split: AssetSubsetValue.splits)

lemma partitioned_subset_value:
  "is_partitioned s \<Longrightarrow> \<exists>p. subset_value s = Inr p \<and> as_value s = SubsetValue p"
  by (auto simp: is_partitioned_def subset_value_def split: AssetSubsetValue.splits)

lemma partition_pairs_set:
  "set [(ac_asset_key cursor, p). cursor \<leftarrow> acs,
          is_partitioned (materialized_requested_or_discarded_subset cursor),
          Inr p \<leftarrow> [subset_value (materialized_requested_or_discarded_subset cursor)]]
   = {(ac_asset_key c, p) | c p. c \<in> set acs
        \<and> as_value (materialized_requested_or_discarded_subset c) = SubsetValue p}"
  by (induction acs)
     (auto simp: is_partitioned_def subset_value_def split: AssetSubsetValue.splits)

lemma handled_keys_set:
  assumes "with_updates self new eid keys ots evs et acs = Inr r"
  shows "set (handled_root_asset_keys r) =
     {ac_asset_key c | c. c \<in> set acs
        \<and> as_value (materialized_requested_or_discarded_subset c) = BoolValue True}"
  unfolding with_updates_handled_keys[OF assms] set_py_set
  by (auto simp: unpartitioned_true_iff)

lemma handled_partitions_keys:
  assumes "with_updates self new eid keys ots evs et acs = Inr r"
  shows "fst ` set (handled_root_partitions_by_asset_key r) =
     {ac_asset_key c | c. c \<in> set acs
        \<and> is_partitioned (materialized_requested_or_discarded_subset c)}"
  unfolding with_updates_handled_partitions[OF assms] keys_py_dict partition_pairs_set
  by (force simp: partitioned_iff image_iff)

lemma handled_partitions_member:
  assumes "with_updates self new eid keys ots evs et acs = Inr r"
    and "(k, p) \<in> set (handled_root_partitions_by_asset_key r)"
  shows "\<exists>c \<in> set acs. ac_asset_key c = k
        \<and> as_value (materialized_requested_or_discarded_subset c) = SubsetValue p"
  using py_dict_member[OF assms(2)[unfolded with_updates_handled_partitions[OF assms(1)]]]
  unfolding partition_pairs_set by auto

lemma map_of_rev_distinct:
  "distinct (map fst kvs) \<Longrightarrow> map_of (rev kvs) = map_of kvs"
  by (rule map_of_inject_set[THEN iffD2]) (auto simp: rev_map[symmetric])

lemma partition_pairs_distinct:
  "distinct (map ac_asset_key acs) \<Longrightarrow>
   distinct (map fst [(ac_asset_key cursor, p). cursor \<leftarrow> acs,
          is_partitioned (materialized_requested_or_discarded_subset cursor),
          Inr p \<leftarrow> [subset_value (materialized_requested_or_discarded_subset cursor)]])"
proof (induction acs)
  case Nil
  show ?case by simp
next
  case (Cons c acs)
  have "\<And>k p. (k, p) \<in> set [(ac_asset_key cursor, p). cursor \<leftarrow> acs,
          is_partitioned (materialized_requested_or_discarded_subset cursor),
          Inr p \<leftarrow> [subset_value (materialized_requested_or_discarded_subset cursor)]]
        \<Longrightarrow> k \<in> ac_asset_key ` set acs"
    unfolding partition_pairs_set by auto
  with Cons show ?case
    by (auto split: sum.splits)
qed

lemma handled_partitions_distinct_lookup:
  assumes "with_updates self new eid keys ots evs et acs = Inr r"
    and "distinct (map ac_asset_key acs)" and "c \<in> set acs"
    and "as_value (materialized_requested_or_discarded_subset c) = SubsetValue p"
  shows "map_of (handled_root_partitions_by_asset_key r) (ac_asset_key c) = Some p"
proof -
  let ?ps = "[(ac_asset_key cursor, p). cursor \<leftarrow> acs,
          is_partitioned (materialized_requested_or_discarded_subset cursor),
          Inr p \<leftarrow> [subset_value (materialized_requested_or_discarded_subset cursor)]]"
  have d: "distinct (map fst ?ps)" by (rule partition_pairs_distinct[OF assms(2)])
  have "(ac_asset_key c, p) \<in> set ?ps" unfolding partition_pairs_set using assms(3,4) by auto
  then have "map_of ?ps (ac_asset_key c) = Some p" using d by simp
  then show ?thesis
    unfolding with_updates_handled_partitions[OF assms(1)] map_of_py_dict map_of_rev_distinct[OF d] .
qed

subsection \<open>The carried storage id, the non-root cursors, the handled keys, the evaluations\<close>

text \<open>
  Claim C5, as the code has it. The result's storage id is
  \<^verbatim>\<open>latest_storage_id or self.latest_storage_id\<close>: after a successful call it is the
  argument when the argument is non-null and non-zero, and the prior cursor's value when
  the argument is \<^verbatim>\<open>None\<close> or 0.
\<close>
theorem storage_id_carried:
  "with_updates self new eid keys ots evs et acs = Inr r \<Longrightarrow>
     (\<forall>n. new = Some n \<and> n \<noteq> 0 \<longrightarrow> latest_storage_id r = Some n)
     \<and> (new = None \<or> new = Some 0 \<longrightarrow> latest_storage_id r = latest_storage_id self)"
  by (drule with_updates_storage_id) (auto simp: py_or_def truthy_def)

theorem storage_id_carried_witness:
  "latest_storage_id ((ex_cursor (Some 8) [])\<lparr> handled_root_asset_keys := [], evaluation_id := 8,
           latest_evaluation_by_asset_key := [], latest_evaluation_timestamp := Some (Finite 9) \<rparr>) = Some 8
   \<and> latest_storage_id ((ex_cursor (Some 5) [])\<lparr> handled_root_asset_keys := [], evaluation_id := 8,
           latest_evaluation_by_asset_key := [], latest_evaluation_timestamp := Some (Finite 9) \<rparr>)
       = latest_storage_id (ex_cursor (Some 5) [])"
proof -
  have a: "with_updates (ex_cursor (Some 5) []) (Some 8) 8 [] (Finite 0) [] (Datetime 9) [] =
     Inr ((ex_cursor (Some 8) [])\<lparr> handled_root_asset_keys := [], evaluation_id := 8,
           latest_evaluation_by_asset_key := [], latest_evaluation_timestamp := Some (Finite 9) \<rparr>)"
    by (simp add: with_updates_def ex_cursor_def truthy_def py_or_def py_set_def py_dict_def bind_err_simps)
  have b: "with_updates (ex_cursor (Some 5) []) None 8 [] (Finite 0) [] (Datetime 9) [] =
     Inr ((ex_cursor (Some 5) [])\<lparr> handled_root_asset_keys := [], evaluation_id := 8,
           latest_evaluation_by_asset_key := [], latest_evaluation_timestamp := Some (Finite 9) \<rparr>)"
    by (simp add: with_updates_def ex_cursor_def truthy_def py_or_def py_set_def py_dict_def bind_err_simps)
  from storage_id_carried[OF a] storage_id_carried[OF b] show ?thesis by simp
qed

text \<open>
  Claim C5 as stated fails: the argument 0 is non-null, and the result carries the prior
  id 5 (or the prior \<^verbatim>\<open>None\<close>) instead of 0.
\<close>

theorem storage_id_carried_counterexample:
  "map_sum id latest_storage_id
     (with_updates (ex_cursor (Some 5) []) (Some 0) 8 [] (Finite 0) [] (Datetime 9) []) = Inr (Some 5)
   \<and> map_sum id latest_storage_id
     (with_updates (ex_cursor None []) (Some 0) 8 [] (Finite 0) [] (Datetime 9) []) = Inr None"
  by (simp add: with_updates_def ex_cursor_def truthy_def py_or_def py_set_def py_dict_def bind_err_simps)

text \<open>
  Claim C10. For every per-asset cursor whose asset key is not among the root asset keys
  of the graph, \<^verbatim>\<open>with_updates\<close> returns the cursor itself, whatever the newly
  materialized subset, the requested and the discarded asset partitions are.
\<close>
theorem non_root_unchanged:
  "ac_asset_key self \<notin> root_asset_keys asset_graph \<Longrightarrow>
   asset_cursor_with_updates ops self asset_graph newly_materialized_subset
     requested_asset_partitions discarded_asset_partitions = Inr self"
  by (simp add: asset_cursor_with_updates_def)

theorem non_root_unchanged_witness:
  "asset_cursor_with_updates ex_ops (ex_asset_cursor ''b'' (BoolValue False)) ex_graph
     \<lparr> as_asset_key = ''b'', as_value = BoolValue True \<rparr> {(''b'', None)} {(''b'', Some ''p'')}
   = Inr (ex_asset_cursor ''b'' (BoolValue False))
   \<and> asset_cursor_with_updates ex_ops (ex_asset_cursor ''a'' (BoolValue False)) ex_graph
     \<lparr> as_asset_key = ''a'', as_value = BoolValue False \<rparr> {(''a'', None)} {}
   = Inr (ex_asset_cursor ''a'' (BoolValue True))"
proof -
  have "ac_asset_key (ex_asset_cursor ''b'' (BoolValue False)) \<notin> root_asset_keys ex_graph"
    by (simp add: ex_asset_cursor_def ex_graph_def)
  then have "asset_cursor_with_updates ex_ops (ex_asset_cursor ''b'' (BoolValue False)) ex_graph
     \<lparr> as_asset_key = ''b'', as_value = BoolValue True \<rparr> {(''b'', None)} {(''b'', Some ''p'')}
   = Inr (ex_asset_cursor ''b'' (BoolValue False))"
    by (rule non_root_unchanged)
  moreover have "asset_cursor_with_updates ex_ops (ex_asset_cursor ''a'' (BoolValue False)) ex_graph
     \<lparr> as_asset_key = ''a'', as_value = BoolValue False \<rparr> {(''a'', None)} {}
   = Inr (ex_asset_cursor ''a'' (BoolValue True))"
    by (simp add: asset_cursor_with_updates_def ex_asset_cursor_def ex_graph_def ex_ops_def)
  ultimately show ?thesis by (rule conjI)
qed


text \<open>
  Claim C8, as the code has it. After a call to \<^verbatim>\<open>with_updates\<close> no asset key is in
  both handled-state fields if and only if the asset cursors hold no two cursors for the
  same asset key of which one is unpartitioned with the value true and the other
  partitioned; in particular no key is in both when the asset cursors carry pairwise
  distinct asset keys.
\<close>
theorem handled_keys_exclusive:
  "with_updates self new eid keys ots evs et acs = Inr r \<Longrightarrow>
     (set (handled_root_asset_keys r) \<inter> fst ` set (handled_root_partitions_by_asset_key r) = {}
        \<longleftrightarrow> \<not> (\<exists>c \<in> set acs. \<exists>c' \<in> set acs. ac_asset_key c = ac_asset_key c'
              \<and> as_value (materialized_requested_or_discarded_subset c) = BoolValue True
              \<and> is_partitioned (materialized_requested_or_discarded_subset c')))
     \<and> (distinct (map ac_asset_key acs) \<longrightarrow>
          set (handled_root_asset_keys r)
            \<inter> fst ` set (handled_root_partitions_by_asset_key r) = {})"
proof -
  assume w: "with_updates self new eid keys ots evs et acs = Inr r"
  have iff: "set (handled_root_asset_keys r) \<inter> fst ` set (handled_root_partitions_by_asset_key r) = {}
        \<longleftrightarrow> \<not> (\<exists>c \<in> set acs. \<exists>c' \<in> set acs. ac_asset_key c = ac_asset_key c'
              \<and> as_value (materialized_requested_or_discarded_subset c) = BoolValue True
              \<and> is_partitioned (materialized_requested_or_discarded_subset c'))"
    unfolding handled_keys_set[OF w] handled_partitions_keys[OF w] by blast
  have "distinct (map ac_asset_key acs) \<Longrightarrow>
     \<not> (\<exists>c \<in> set acs. \<exists>c' \<in> set acs. ac_asset_key c = ac_asset_key c'
              \<and> as_value (materialized_requested_or_discarded_subset c) = BoolValue True
              \<and> is_partitioned (materialized_requested_or_discarded_subset c'))"
  proof
    assume d: "distinct (map ac_asset_key acs)"
    assume "\<exists>c \<in> set acs. \<exists>c' \<in> set acs. ac_asset_key c = ac_asset_key c'
              \<and> as_value (materialized_requested_or_discarded_subset c) = BoolValue True
              \<and> is_partitioned (materialized_requested_or_discarded_subset c')"
    then obtain c c' where c: "c \<in> set acs" "c' \<in> set acs" "ac_asset_key c = ac_asset_key c'"
      "as_value (materialized_requested_or_discarded_subset c) = BoolValue True"
      "is_partitioned (materialized_requested_or_discarded_subset c')" by blast
    from d c(1,2,3) have "c = c'" by (meson distinct_map inj_onD)
    with c(4,5) show False by (simp add: is_partitioned_def)
  qed
  with iff show ?thesis by blast
qed

lemma ex_exclusive:
  "with_updates (ex_cursor None []) None 8 [] (Finite 0) [] (Datetime 9)
     [ex_asset_cursor ''a'' (BoolValue True), ex_asset_cursor ''b'' (SubsetValue ex_window)]
   = Inr \<lparr> latest_storage_id = None, handled_root_asset_keys = [''a''],
           handled_root_partitions_by_asset_key = [(''b'', ex_window)], evaluation_id = 8,
           last_observe_request_timestamp_by_asset_key = [(''c'', Finite 3)],
           latest_evaluation_by_asset_key = [], latest_evaluation_timestamp = Some (Finite 9) \<rparr>"
  by (simp add: with_updates_def ex_cursor_def ex_asset_cursor_def truthy_def py_or_def
      py_set_def py_dict_def is_partitioned_def bool_value_def subset_value_def bind_err_simps)

theorem handled_keys_exclusive_witness:
  "distinct (map ac_asset_key
      [ex_asset_cursor ''a'' (BoolValue True), ex_asset_cursor ''b'' (SubsetValue ex_window)])
   \<and> set [''a''] \<inter> fst ` set [(''b'', ex_window)] = {}"
proof -
  have d: "distinct (map ac_asset_key
      [ex_asset_cursor ''a'' (BoolValue True), ex_asset_cursor ''b'' (SubsetValue ex_window)])"
    by (simp add: ex_asset_cursor_def)
  from handled_keys_exclusive[OF ex_exclusive, THEN conjunct2, rule_format, OF d] d
  show ?thesis by simp
qed

text \<open>
  Claim C8 as stated, for any asset cursors, fails: with two cursors for the asset
  \<open>a\<close>, one unpartitioned and true, one partitioned, the result holds \<open>a\<close> in both
  fields.
\<close>

theorem handled_keys_exclusive_counterexample:
  "with_updates (ex_cursor None []) None 8 [] (Finite 0) [] (Datetime 9)
     [ex_asset_cursor ''a'' (BoolValue True), ex_asset_cursor ''a'' (SubsetValue ex_window)]
   = Inr \<lparr> latest_storage_id = None, handled_root_asset_keys = [''a''],
           handled_root_partitions_by_asset_key = [(''a'', ex_window)], evaluation_id = 8,
           last_observe_request_timestamp_by_asset_key = [(''c'', Finite 3)],
           latest_evaluation_by_asset_key = [], latest_evaluation_timestamp = Some (Finite 9) \<rparr>
   \<and> ''a'' \<in> set [''a''] \<inter> fst ` set [(''a'', ex_window)]"
  by (simp add: with_updates_def ex_cursor_def ex_asset_cursor_def truthy_def py_or_def
      py_set_def py_dict_def is_partitioned_def bool_value_def subset_value_def bind_err_simps)

text \<open>
  Claim C9. The latest evaluations of the result of \<^verbatim>\<open>with_updates\<close> are the dict of
  the evaluations passed that are not empty, keyed by their asset keys: every entry is an
  evaluation of the argument, stored under its own asset key, and not empty; the keys are
  the asset keys of the non-empty evaluations; no other argument and nothing of the
  prior cursor has a part in it.
\<close>
theorem empty_evaluations_pruned:
  "with_updates self new eid keys ots evs et acs = Inr r \<Longrightarrow>
     latest_evaluation_by_asset_key r =
       py_dict [(ev_asset_key e, e). e \<leftarrow> evs, \<not> is_empty e]
     \<and> (\<forall>k e. (k, e) \<in> set (latest_evaluation_by_asset_key r) \<longrightarrow>
           e \<in> set evs \<and> \<not> is_empty e \<and> ev_asset_key e = k)
     \<and> fst ` set (latest_evaluation_by_asset_key r) =
         {ev_asset_key e | e. e \<in> set evs \<and> \<not> is_empty e}
     \<and> (\<forall>self' new' eid' keys' ots' et' acs' r'.
           with_updates self' new' eid' keys' ots' evs et' acs' = Inr r' \<longrightarrow>
           latest_evaluation_by_asset_key r' = latest_evaluation_by_asset_key r)"
proof (intro conjI allI impI)
  assume w: "with_updates self new eid keys ots evs et acs = Inr r"
  show eq: "latest_evaluation_by_asset_key r =
       py_dict [(ev_asset_key e, e). e \<leftarrow> evs, \<not> is_empty e]"
    by (rule with_updates_latest_evaluations[OF w])
  show "fst ` set (latest_evaluation_by_asset_key r) =
         {ev_asset_key e | e. e \<in> set evs \<and> \<not> is_empty e}"
    unfolding eq keys_py_dict by force
  {
    fix k e
    assume "(k, e) \<in> set (latest_evaluation_by_asset_key r)"
    then have "(k, e) \<in> set [(ev_asset_key e, e). e \<leftarrow> evs, \<not> is_empty e]"
      unfolding eq by (rule py_dict_member)
    then show "e \<in> set evs" and "\<not> is_empty e" and "ev_asset_key e = k" by auto
  }
  {
    fix self' new' eid' keys' ots' et' acs' r'
    assume w': "with_updates self' new' eid' keys' ots' evs et' acs' = Inr r'"
    show "latest_evaluation_by_asset_key r' = latest_evaluation_by_asset_key r"
      unfolding eq with_updates_latest_evaluations[OF w'] ..
  }
qed

lemma ex_pruned:
  "with_updates (ex_cursor None []) None 8 [] (Finite 0)
     [ex_evaluation True ''a'', ex_evaluation False ''b''] (Datetime 9) []
   = Inr \<lparr> latest_storage_id = None, handled_root_asset_keys = [],
           handled_root_partitions_by_asset_key = [], evaluation_id = 8,
           last_observe_request_timestamp_by_asset_key = [(''c'', Finite 3)],
           latest_evaluation_by_asset_key = [(''b'', ex_evaluation False ''b'')],
           latest_evaluation_timestamp = Some (Finite 9) \<rparr>"
  by (simp add: with_updates_def ex_cursor_def ex_evaluation_def truthy_def py_or_def
      py_set_def py_dict_def bind_err_simps)

theorem empty_evaluations_pruned_witness:
  "(''b'', ex_evaluation False ''b'') \<in> set [(''b'', ex_evaluation False ''b'')]
   \<and> ex_evaluation False ''b'' \<in> set [ex_evaluation True ''a'', ex_evaluation False ''b'']
   \<and> \<not> is_empty (ex_evaluation False ''b'')
   \<and> fst ` set [(''b'', ex_evaluation False ''b'')] =
       {ev_asset_key e | e. e \<in> set [ex_evaluation True ''a'', ex_evaluation False ''b'']
          \<and> \<not> is_empty e}"
proof -
  note T = empty_evaluations_pruned[OF ex_pruned]
  have m: "(''b'', ex_evaluation False ''b'') \<in> set [(''b'', ex_evaluation False ''b'')]" by simp
  from T[THEN conjunct2, THEN conjunct1, rule_format, of "''b''" "ex_evaluation False ''b''"]
  have a: "ex_evaluation False ''b'' \<in> set [ex_evaluation True ''a'', ex_evaluation False ''b'']
     \<and> \<not> is_empty (ex_evaluation False ''b'')" by simp
  from T[THEN conjunct2, THEN conjunct2, THEN conjunct1]
  have b: "fst ` set [(''b'', ex_evaluation False ''b'')] =
       {ev_asset_key e | e. e \<in> set [ex_evaluation True ''a'', ex_evaluation False ''b'']
          \<and> \<not> is_empty e}" by simp
  from m a b show ?thesis by blast
qed

subsection \<open>The storage id across ticks\<close>

lemma tick_step:
  assumes "tick_update c t = Inr c'" and "t_latest_storage_id t = Some n"
    and "latest_storage_id c = Some p"
  shows "latest_storage_id c' = Some (if n = 0 then p else n) \<and> (n \<noteq> 0 \<and> p \<noteq> 0 \<longrightarrow> p \<le> n)"
proof -
  have a: "latest_storage_id c' = py_or (Some n) (Some p)"
    using assms with_updates_storage_id unfolding tick_update_def by metis
  have "tick_update c t \<noteq> Inl CheckError" using assms(1) by simp
  then have b: "\<not> (n \<noteq> 0 \<and> p \<noteq> 0 \<and> n < p)"
    unfolding tick_update_def with_updates_fails_iff using assms(2,3) by simp
  from a b show ?thesis by (auto simp: py_or_def truthy_def)
qed

lemma run_ticks_ids:
  assumes "run_ticks c ts = Inr cs" and "latest_storage_id c = Some p"
    and "\<forall>t \<in> set ts. \<exists>n. t_latest_storage_id t = Some n"
  shows "\<exists>ids. map latest_storage_id cs = map Some ids
           \<and> (\<forall>t \<in> set ts. \<forall>m. t_latest_storage_id t = Some m \<and> m \<noteq> 0 \<longrightarrow> m \<in> set ids)
           \<and> (sorted (p # ids) \<longleftrightarrow>
                p \<noteq> 0 \<or> (\<forall>t \<in> set ts. \<forall>m. t_latest_storage_id t = Some m \<longrightarrow> 0 \<le> m))"
  using assms
proof (induction ts arbitrary: c p cs)
  case Nil
  then show ?case by simp
next
  case (Cons t ts)
  from Cons.prems(1) obtain c' cs' where
    st: "tick_update c t = Inr c'" and rest: "run_ticks c' ts = Inr cs'" and cs: "cs = c' # cs'"
    by (auto simp: bind_err_Inr_iff)
  from Cons.prems(3) obtain n where n: "t_latest_storage_id t = Some n" by auto
  define p' where "p' = (if n = 0 then p else n)"
  from tick_step[OF st n Cons.prems(2)] have c': "latest_storage_id c' = Some p'"
    and le: "n \<noteq> 0 \<and> p \<noteq> 0 \<longrightarrow> p \<le> n" by (simp_all add: p'_def)
  from Cons.prems(3) have all: "\<forall>t \<in> set ts. \<exists>n. t_latest_storage_id t = Some n" by simp
  from Cons.IH[OF rest c' all] obtain ids where
    ids: "map latest_storage_id cs' = map Some ids"
    and mem: "\<forall>t \<in> set ts. \<forall>m. t_latest_storage_id t = Some m \<and> m \<noteq> 0 \<longrightarrow> m \<in> set ids"
    and srt: "sorted (p' # ids) \<longleftrightarrow>
                p' \<noteq> 0 \<or> (\<forall>t \<in> set ts. \<forall>m. t_latest_storage_id t = Some m \<longrightarrow> 0 \<le> m)"
    by blast
  have 1: "map latest_storage_id cs = map Some (p' # ids)" using cs c' ids by simp
  have 2: "\<forall>u \<in> set (t # ts). \<forall>m. t_latest_storage_id u = Some m \<and> m \<noteq> 0 \<longrightarrow> m \<in> set (p' # ids)"
    using mem n by (auto simp: p'_def)
  have 3: "sorted (p # p' # ids) \<longleftrightarrow>
      p \<noteq> 0 \<or> (\<forall>u \<in> set (t # ts). \<forall>m. t_latest_storage_id u = Some m \<longrightarrow> 0 \<le> m)"
  proof (cases "n = 0")
    case True
    then have "p' = p" by (simp add: p'_def)
    with srt True n show ?thesis by auto
  next
    case False
    then have p': "p' = n" by (simp add: p'_def)
    with srt False have s: "sorted (n # ids)" by simp
    show ?thesis
    proof (cases "p = 0")
      case nz: False
      with le False have "p \<le> n" by simp
      with s nz show ?thesis by (auto simp: p')
    next
      case z: True
      have "0 \<le> n \<longrightarrow> (\<forall>u \<in> set ts. \<forall>m. t_latest_storage_id u = Some m \<longrightarrow> 0 \<le> m)"
      proof (intro impI ballI allI)
        fix u m
        assume n0: "0 \<le> n" and u: "u \<in> set ts" and m: "t_latest_storage_id u = Some m"
        show "0 \<le> m"
        proof (cases "m = 0")
          case True
          then show ?thesis by simp
        next
          case False
          with mem u m have "m \<in> set ids" by blast
          with s have "n \<le> m" by simp
          with n0 show ?thesis by simp
        qed
      qed
      with s z n show ?thesis by (auto simp: p')
    qed
  qed
  from 1 2 3 show ?case by blast
qed

text \<open>
  Claim C1, as the code has it. The check of \<^verbatim>\<open>with_updates\<close> is guarded by the
  truthiness of both storage ids. A call fails with the invariant's error exactly when
  both storage ids are non-null and non-zero and the new id is below the prior one; a
  \<^verbatim>\<open>None\<close> or a 0 on either side skips the check, so the call does not fail with that
  error. Consequently, across every sequence of successful calls with non-null storage
  ids from a cursor whose storage id is non-null, the storage ids of the resulting
  cursors are non-null, and together with the starting id they are in non-decreasing
  order exactly when the starting id is not 0 or no call passes a negative id.
\<close>

theorem storage_id_monotone:
  "(with_updates self new eid keys ots evs et acs = Inl CheckError \<longleftrightarrow>
      (\<exists>n prior. new = Some n \<and> latest_storage_id self = Some prior
         \<and> n \<noteq> 0 \<and> prior \<noteq> 0 \<and> n < prior))
   \<and> (new = None \<or> new = Some 0 \<or> latest_storage_id self = None \<or> latest_storage_id self = Some 0
        \<longrightarrow> with_updates self new eid keys ots evs et acs \<noteq> Inl CheckError)
   \<and> (\<forall>prior. latest_storage_id self = Some prior
        \<and> (\<forall>t \<in> set ticks. \<exists>n. t_latest_storage_id t = Some n)
        \<and> run_ticks self ticks = Inr cs \<longrightarrow>
        (\<exists>ids. map latest_storage_id cs = map Some ids
           \<and> (sorted (prior # ids) \<longleftrightarrow>
                prior \<noteq> 0 \<or> (\<forall>t \<in> set ticks. \<forall>n. t_latest_storage_id t = Some n \<longrightarrow> 0 \<le> n))))"
proof (intro conjI allI impI)
  show a: "with_updates self new eid keys ots evs et acs = Inl CheckError \<longleftrightarrow>
      (\<exists>n prior. new = Some n \<and> latest_storage_id self = Some prior
         \<and> n \<noteq> 0 \<and> prior \<noteq> 0 \<and> n < prior)"
    by (rule with_updates_fails_iff)
  assume "new = None \<or> new = Some 0 \<or> latest_storage_id self = None \<or> latest_storage_id self = Some 0"
  then show "with_updates self new eid keys ots evs et acs \<noteq> Inl CheckError"
    unfolding a by auto
next
  fix prior
  assume "latest_storage_id self = Some prior
        \<and> (\<forall>t \<in> set ticks. \<exists>n. t_latest_storage_id t = Some n)
        \<and> run_ticks self ticks = Inr cs"
  then show "\<exists>ids. map latest_storage_id cs = map Some ids
           \<and> (sorted (prior # ids) \<longleftrightarrow>
                prior \<noteq> 0 \<or> (\<forall>t \<in> set ticks. \<forall>n. t_latest_storage_id t = Some n \<longrightarrow> 0 \<le> n))"
    using run_ticks_ids[of self ticks cs prior] by blast
qed

lemma ex_run:
  "run_ticks (ex_cursor (Some 5) []) [ex_tick (Some 0), ex_tick (Some 8)] =
    Inr [ (ex_cursor (Some 5) [])\<lparr> handled_root_asset_keys := [], evaluation_id := 8,
            latest_evaluation_by_asset_key := [],
            latest_evaluation_timestamp := Some (Finite 9) \<rparr>,
          (ex_cursor (Some 8) [])\<lparr> handled_root_asset_keys := [], evaluation_id := 8,
            latest_evaluation_by_asset_key := [],
            latest_evaluation_timestamp := Some (Finite 9) \<rparr>]"
  by (simp add: tick_update_def with_updates_def ex_cursor_def ex_tick_def bind_err_simps
      truthy_def py_or_def py_set_def py_dict_def)

lemma ex_cursor_storage_id: "latest_storage_id (ex_cursor s ps) = s"
  by (simp add: ex_cursor_def)

lemma ex_tick_storage_id: "t_latest_storage_id (ex_tick s) = s"
  by (simp add: ex_tick_def)

theorem storage_id_monotone_witness:
  "with_updates (ex_cursor (Some 5) []) (Some 3) 8 [] (Finite 0) [] (Datetime 9) [] = Inl CheckError
   \<and> with_updates (ex_cursor (Some 5) []) (Some 0) 8 [] (Finite 0) [] (Datetime 9) []
       \<noteq> Inl CheckError
   \<and> (\<exists>cs ids. run_ticks (ex_cursor (Some 5) []) [ex_tick (Some 0), ex_tick (Some 8)] = Inr cs
          \<and> map latest_storage_id cs = map Some ids \<and> sorted (5 # ids))"
proof -
  have a: "with_updates (ex_cursor (Some 5) []) (Some 3) 8 [] (Finite 0) [] (Datetime 9) []
      = Inl CheckError"
    using storage_id_monotone[where self = "ex_cursor (Some 5) []" and new = "Some 3"
        and ticks = "[]", THEN conjunct1]
    by (simp add: ex_cursor_storage_id)
  have b: "with_updates (ex_cursor (Some 5) []) (Some 0) 8 [] (Finite 0) [] (Datetime 9) []
      \<noteq> Inl CheckError"
    using storage_id_monotone[where self = "ex_cursor (Some 5) []" and new = "Some 0"
        and ticks = "[]", THEN conjunct2, THEN conjunct1]
    by simp
  have h: "latest_storage_id (ex_cursor (Some 5) []) = Some 5
        \<and> (\<forall>t \<in> set [ex_tick (Some 0), ex_tick (Some 8)]. \<exists>n. t_latest_storage_id t = Some n)
        \<and> run_ticks (ex_cursor (Some 5) []) [ex_tick (Some 0), ex_tick (Some 8)] =
            Inr [ (ex_cursor (Some 5) [])\<lparr> handled_root_asset_keys := [], evaluation_id := 8,
                    latest_evaluation_by_asset_key := [],
                    latest_evaluation_timestamp := Some (Finite 9) \<rparr>,
                  (ex_cursor (Some 8) [])\<lparr> handled_root_asset_keys := [], evaluation_id := 8,
                    latest_evaluation_by_asset_key := [],
                    latest_evaluation_timestamp := Some (Finite 9) \<rparr>]"
    by (intro conjI, simp add: ex_cursor_storage_id, simp add: ex_tick_storage_id, rule ex_run)
  from storage_id_monotone[where self = "ex_cursor (Some 5) []"
      and ticks = "[ex_tick (Some 0), ex_tick (Some 8)]",
      THEN conjunct2, THEN conjunct2, rule_format, OF h]
  obtain ids where
    ids: "map latest_storage_id
            [ (ex_cursor (Some 5) [])\<lparr> handled_root_asset_keys := [], evaluation_id := 8,
                latest_evaluation_by_asset_key := [],
                latest_evaluation_timestamp := Some (Finite 9) \<rparr>,
              (ex_cursor (Some 8) [])\<lparr> handled_root_asset_keys := [], evaluation_id := 8,
                latest_evaluation_by_asset_key := [],
                latest_evaluation_timestamp := Some (Finite 9) \<rparr>] = map Some ids"
    and s: "sorted (5 # ids) \<longleftrightarrow> (5::int) \<noteq> 0
        \<or> (\<forall>t \<in> set [ex_tick (Some 0), ex_tick (Some 8)].
              \<forall>n. t_latest_storage_id t = Some n \<longrightarrow> 0 \<le> n)"
    by blast
  from s have "sorted (5 # ids)" by simp
  with ids ex_run have c: "\<exists>cs ids.
      run_ticks (ex_cursor (Some 5) []) [ex_tick (Some 0), ex_tick (Some 8)] = Inr cs
      \<and> map latest_storage_id cs = map Some ids \<and> sorted (5 # ids)"
    by blast
  from a b c show ?thesis by blast
qed

text \<open>
  Claim C1 as stated fails: with prior id 5 the call with the non-null id 0 succeeds
  although 0 is below 5, and from the non-null id 0 the call with id \<open>-1\<close> succeeds and
  the resulting id has decreased.
\<close>

theorem storage_id_zero_counterexample:
  "with_updates (ex_cursor (Some 5) []) (Some 0) 8 [] (Finite 0) [] (Datetime 9) [] =
     Inr ((ex_cursor (Some 5) [])\<lparr> handled_root_asset_keys := [], evaluation_id := 8,
           latest_evaluation_by_asset_key := [],
           latest_evaluation_timestamp := Some (Finite 9) \<rparr>)
   \<and> \<not> (0::int) \<ge> 5
   \<and> with_updates (ex_cursor (Some 0) []) (Some (- 1)) 8 [] (Finite 0) [] (Datetime 9) [] =
     Inr ((ex_cursor (Some (- 1)) [])\<lparr> handled_root_asset_keys := [], evaluation_id := 8,
           latest_evaluation_by_asset_key := [],
           latest_evaluation_timestamp := Some (Finite 9) \<rparr>)"
  by (simp add: with_updates_def ex_cursor_def truthy_def py_or_def py_set_def py_dict_def
      bind_err_simps)

subsection \<open>The handled state is rebuilt\<close>

lemma partition_pairs_simp:
  "[(ac_asset_key cursor, p). cursor \<leftarrow> acs,
          is_partitioned (materialized_requested_or_discarded_subset cursor),
          Inr p \<leftarrow> [subset_value (materialized_requested_or_discarded_subset cursor)]]
   = [(ac_asset_key cursor, p). cursor \<leftarrow> acs,
          SubsetValue p \<leftarrow> [as_value (materialized_requested_or_discarded_subset cursor)]]"
  by (induction acs)
     (auto simp: is_partitioned_def subset_value_def split: AssetSubsetValue.splits)

lemma handled_absent:
  assumes "with_updates self new eid keys ots evs et acs = Inr r"
    and "k \<notin> ac_asset_key ` set acs"
  shows "k \<notin> set (handled_root_asset_keys r)
       \<and> map_of (handled_root_partitions_by_asset_key r) k = None"
proof -
  have "k \<notin> set (handled_root_asset_keys r)"
    using assms(2) unfolding handled_keys_set[OF assms(1)] by auto
  moreover have "k \<notin> fst ` set (handled_root_partitions_by_asset_key r)"
    using assms(2) unfolding handled_partitions_keys[OF assms(1)] by auto
  ultimately show ?thesis by (simp add: map_of_eq_None_iff)
qed

lemma keys_where: "{f c | c. c \<in> set xs \<and> P c} = set (map f (filter P xs))"
  by auto

lemma partition_pairs_keys:
  "fst ` set [(ac_asset_key cursor, p). cursor \<leftarrow> acs,
          SubsetValue p \<leftarrow> [as_value (materialized_requested_or_discarded_subset cursor)]]
   = {ac_asset_key c | c. c \<in> set acs
        \<and> is_partitioned (materialized_requested_or_discarded_subset c)}"
  unfolding partition_pairs_simp[symmetric] partition_pairs_set
  by (force simp: partitioned_iff image_iff)

lemma handled_partitions_last:
  assumes w: "with_updates self new eid keys ots evs et acs = Inr r"
    and acs: "acs = xs @ c # ys"
    and p: "as_value (materialized_requested_or_discarded_subset c) = SubsetValue p"
    and later: "\<forall>c' \<in> set ys. is_partitioned (materialized_requested_or_discarded_subset c')
        \<longrightarrow> ac_asset_key c' \<noteq> ac_asset_key c"
  shows "map_of (handled_root_partitions_by_asset_key r) (ac_asset_key c) = Some p"
proof -
  let ?pairs = "\<lambda>cs. [(ac_asset_key cursor, p). cursor \<leftarrow> cs,
          SubsetValue p \<leftarrow> [as_value (materialized_requested_or_discarded_subset cursor)]]"
  have split: "?pairs acs = ?pairs xs @ (ac_asset_key c, p) # ?pairs ys"
    by (simp add: acs p)
  have "ac_asset_key c \<notin> fst ` set (?pairs ys)"
    unfolding partition_pairs_keys using later by auto
  then have none: "map_of (rev (?pairs ys)) (ac_asset_key c) = None"
    by (simp add: map_of_eq_None_iff)
  have "map_of (handled_root_partitions_by_asset_key r) (ac_asset_key c)
      = map_of (rev (?pairs acs)) (ac_asset_key c)"
    unfolding with_updates_handled_partitions[OF w] map_of_py_dict partition_pairs_simp ..
  also have "\<dots> = Some p"
    unfolding split using none by (simp add: map_add_def)
  finally show ?thesis .
qed

text \<open>
  Claim C3, as the code has it. A call to \<^verbatim>\<open>with_updates\<close> that passes the check of the
  storage ids, with an evaluation time that has a timestamp, returns a cursor whose two
  handled-state fields are rebuilt from the asset cursors alone. The handled root asset
  keys are exactly the keys of the cursors whose subset is unpartitioned with the boolean
  value true. The handled root partitions have exactly the keys of the cursors whose
  subset is partitioned, and every entry is the subset value of a partitioned cursor
  under its key: the map is that of the pairs of key and subset value with a later
  cursor winning, so a key is mapped to the subset value of the last partitioned cursor
  that carries it, and with pairwise distinct keys every partitioned cursor is mapped to
  its subset value. A key that no asset cursor carries is in neither field, whatever the
  prior cursor held, and any other call with the same asset cursors yields the same two
  fields.
\<close>

theorem handled_state_rebuilt:
  assumes "\<not> (\<exists>n prior. new = Some n \<and> latest_storage_id self = Some prior
              \<and> n \<noteq> 0 \<and> prior \<noteq> 0 \<and> n < prior)"
    and "timestamp et = Inr ts"
  shows "\<exists>r. with_updates self new eid keys ots evs et acs = Inr r
     \<and> set (handled_root_asset_keys r) =
       {ac_asset_key c | c. c \<in> set acs
          \<and> as_value (materialized_requested_or_discarded_subset c) = BoolValue True}
     \<and> fst ` set (handled_root_partitions_by_asset_key r) =
       {ac_asset_key c | c. c \<in> set acs
          \<and> is_partitioned (materialized_requested_or_discarded_subset c)}
     \<and> map_of (handled_root_partitions_by_asset_key r) =
       map_of (rev [(ac_asset_key c, p). c \<leftarrow> acs,
          SubsetValue p \<leftarrow> [as_value (materialized_requested_or_discarded_subset c)]])
     \<and> (\<forall>k p. (k, p) \<in> set (handled_root_partitions_by_asset_key r) \<longrightarrow>
           (\<exists>c \<in> set acs. ac_asset_key c = k
              \<and> as_value (materialized_requested_or_discarded_subset c) = SubsetValue p))
     \<and> (\<forall>xs c ys p. acs = xs @ c # ys
           \<and> as_value (materialized_requested_or_discarded_subset c) = SubsetValue p
           \<and> (\<forall>c' \<in> set ys. is_partitioned (materialized_requested_or_discarded_subset c')
                 \<longrightarrow> ac_asset_key c' \<noteq> ac_asset_key c) \<longrightarrow>
           map_of (handled_root_partitions_by_asset_key r) (ac_asset_key c) = Some p)
     \<and> (distinct (map ac_asset_key acs) \<longrightarrow>
           (\<forall>c \<in> set acs. \<forall>p.
              as_value (materialized_requested_or_discarded_subset c) = SubsetValue p \<longrightarrow>
              map_of (handled_root_partitions_by_asset_key r) (ac_asset_key c) = Some p))
     \<and> (\<forall>k. k \<notin> ac_asset_key ` set acs \<longrightarrow>
           k \<notin> set (handled_root_asset_keys r)
           \<and> map_of (handled_root_partitions_by_asset_key r) k = None)
     \<and> (\<forall>self' new' eid' keys' ots' evs' et' r'.
           with_updates self' new' eid' keys' ots' evs' et' acs = Inr r' \<longrightarrow>
           handled_root_asset_keys r' = handled_root_asset_keys r
           \<and> handled_root_partitions_by_asset_key r' = handled_root_partitions_by_asset_key r)"
proof -
  from with_updates_returns[OF assms] obtain r where
    w: "with_updates self new eid keys ots evs et acs = Inr r" by blast
  have 1: "set (handled_root_asset_keys r) =
       {ac_asset_key c | c. c \<in> set acs
          \<and> as_value (materialized_requested_or_discarded_subset c) = BoolValue True}"
    by (rule handled_keys_set[OF w])
  have 2: "fst ` set (handled_root_partitions_by_asset_key r) =
       {ac_asset_key c | c. c \<in> set acs
          \<and> is_partitioned (materialized_requested_or_discarded_subset c)}"
    by (rule handled_partitions_keys[OF w])
  have 3: "map_of (handled_root_partitions_by_asset_key r) =
       map_of (rev [(ac_asset_key c, p). c \<leftarrow> acs,
          SubsetValue p \<leftarrow> [as_value (materialized_requested_or_discarded_subset c)]])"
    unfolding with_updates_handled_partitions[OF w] map_of_py_dict partition_pairs_simp ..
  have 4: "\<forall>k p. (k, p) \<in> set (handled_root_partitions_by_asset_key r) \<longrightarrow>
           (\<exists>c \<in> set acs. ac_asset_key c = k
              \<and> as_value (materialized_requested_or_discarded_subset c) = SubsetValue p)"
    using handled_partitions_member[OF w] by blast
  have 5: "\<forall>xs c ys p. acs = xs @ c # ys
           \<and> as_value (materialized_requested_or_discarded_subset c) = SubsetValue p
           \<and> (\<forall>c' \<in> set ys. is_partitioned (materialized_requested_or_discarded_subset c')
                 \<longrightarrow> ac_asset_key c' \<noteq> ac_asset_key c) \<longrightarrow>
           map_of (handled_root_partitions_by_asset_key r) (ac_asset_key c) = Some p"
    using handled_partitions_last[OF w] by blast
  have 6: "distinct (map ac_asset_key acs) \<longrightarrow>
           (\<forall>c \<in> set acs. \<forall>p.
              as_value (materialized_requested_or_discarded_subset c) = SubsetValue p \<longrightarrow>
              map_of (handled_root_partitions_by_asset_key r) (ac_asset_key c) = Some p)"
    using handled_partitions_distinct_lookup[OF w] by blast
  have 7: "\<forall>k. k \<notin> ac_asset_key ` set acs \<longrightarrow>
           k \<notin> set (handled_root_asset_keys r)
           \<and> map_of (handled_root_partitions_by_asset_key r) k = None"
    using handled_absent[OF w] by blast
  have 8: "\<forall>self' new' eid' keys' ots' evs' et' r'.
           with_updates self' new' eid' keys' ots' evs' et' acs = Inr r' \<longrightarrow>
           handled_root_asset_keys r' = handled_root_asset_keys r
           \<and> handled_root_partitions_by_asset_key r' = handled_root_partitions_by_asset_key r"
  proof (intro allI impI)
    fix self' :: "('a, 'b, 'c) annotated_cursor" and new' eid' keys' ots' evs' et' r'
    assume w': "with_updates self' new' eid' keys' ots' evs' et' acs = Inr r'"
    show "handled_root_asset_keys r' = handled_root_asset_keys r
        \<and> handled_root_partitions_by_asset_key r' = handled_root_partitions_by_asset_key r"
      unfolding with_updates_handled_keys[OF w] with_updates_handled_keys[OF w']
        with_updates_handled_partitions[OF w] with_updates_handled_partitions[OF w']
      by simp
  qed
  from w 1 2 3 4 5 6 7 8 show ?thesis by blast
qed

text \<open>
  The prior cursor holds the asset \<open>z\<close> in its handled partitions; the asset cursors
  are for \<open>a\<close>, \<open>b\<close> and \<open>c\<close>; the call returns a cursor that holds \<open>a\<close> and \<open>b\<close>
  and no longer \<open>z\<close>.
\<close>

theorem handled_state_rebuilt_witness:
  "map_of (handled_root_partitions_by_asset_key (ex_cursor (Some 5) [(''z'', ex_window)])) ''z''
     = Some ex_window
   \<and> (\<exists>r. with_updates (ex_cursor (Some 5) [(''z'', ex_window)]) None 8 [] (Finite 0) []
            (Datetime 9)
            [ex_asset_cursor ''a'' (BoolValue True),
             ex_asset_cursor ''b'' (SubsetValue ex_window),
             ex_asset_cursor ''c'' (BoolValue False)] = Inr r
        \<and> ''a'' \<in> set (handled_root_asset_keys r)
        \<and> ''c'' \<notin> set (handled_root_asset_keys r)
        \<and> map_of (handled_root_partitions_by_asset_key r) ''b'' = Some ex_window
        \<and> map_of (handled_root_partitions_by_asset_key r) ''z'' = None)"
proof -
  let ?acs = "[ex_asset_cursor ''a'' (BoolValue True),
      ex_asset_cursor ''b'' (SubsetValue ex_window), ex_asset_cursor ''c'' (BoolValue False)]"
  have pass: "\<not> (\<exists>n prior. (None :: int option) = Some n
      \<and> latest_storage_id (ex_cursor (Some 5) [(''z'', ex_window)]) = Some prior
      \<and> n \<noteq> 0 \<and> prior \<noteq> 0 \<and> n < prior)" by simp
  have ts: "timestamp (Datetime 9) = Inr (Finite 9)" by simp
  from handled_state_rebuilt[OF pass ts, where acs = ?acs and eid = 8 and keys = "[]"
      and ots = "Finite 0" and evs = "[]"]
  obtain r where
    w: "with_updates (ex_cursor (Some 5) [(''z'', ex_window)]) None 8 [] (Finite 0) []
          (Datetime 9) ?acs = Inr r"
    and k: "set (handled_root_asset_keys r) =
       {ac_asset_key c | c. c \<in> set ?acs
          \<and> as_value (materialized_requested_or_discarded_subset c) = BoolValue True}"
    and d: "distinct (map ac_asset_key ?acs) \<longrightarrow>
           (\<forall>c \<in> set ?acs. \<forall>p.
              as_value (materialized_requested_or_discarded_subset c) = SubsetValue p \<longrightarrow>
              map_of (handled_root_partitions_by_asset_key r) (ac_asset_key c) = Some p)"
    and z: "\<forall>k. k \<notin> ac_asset_key ` set ?acs \<longrightarrow>
           k \<notin> set (handled_root_asset_keys r)
           \<and> map_of (handled_root_partitions_by_asset_key r) k = None"
    by (elim exE conjE) (rule that; assumption)
  have a: "''a'' \<in> set (handled_root_asset_keys r)"
    and c: "''c'' \<notin> set (handled_root_asset_keys r)"
    unfolding k keys_where by (simp_all add: ex_asset_cursor_def)
  have "distinct (map ac_asset_key ?acs)" by (simp add: ex_asset_cursor_def)
  with d have "\<forall>c \<in> set ?acs. \<forall>p.
      as_value (materialized_requested_or_discarded_subset c) = SubsetValue p \<longrightarrow>
      map_of (handled_root_partitions_by_asset_key r) (ac_asset_key c) = Some p" by blast
  then have b: "map_of (handled_root_partitions_by_asset_key r) ''b'' = Some ex_window"
    by (simp add: ex_asset_cursor_def)
  have "''z'' \<notin> ac_asset_key ` set ?acs" by (simp add: ex_asset_cursor_def)
  with z have n: "map_of (handled_root_partitions_by_asset_key r) ''z'' = None" by blast
  have p: "map_of (handled_root_partitions_by_asset_key (ex_cursor (Some 5) [(''z'', ex_window)]))
      ''z'' = Some ex_window" by (simp add: ex_cursor_def)
  from p w a c b n show ?thesis by blast
qed

text \<open>
  Claim C3 as stated fails: of two partitioned cursors for the asset \<open>a\<close> only the
  subset of the second is stored, so the first partitioned entry is not mapped to its
  subset value.
\<close>

theorem handled_state_rebuilt_counterexample:
  "with_updates (ex_cursor None []) None 8 [] (Finite 0) [] (Datetime 9)
     [ex_asset_cursor ''a'' (SubsetValue ex_window),
      ex_asset_cursor ''a'' (SubsetValue (OtherPartitionsSubset ()))]
   = Inr \<lparr> latest_storage_id = None, handled_root_asset_keys = [],
           handled_root_partitions_by_asset_key = [(''a'', OtherPartitionsSubset ())],
           evaluation_id = 8,
           last_observe_request_timestamp_by_asset_key = [(''c'', Finite 3)],
           latest_evaluation_by_asset_key = [],
           latest_evaluation_timestamp = Some (Finite 9) \<rparr>
   \<and> map_of [(''a'', OtherPartitionsSubset ())] ''a'' \<noteq> Some ex_window"
  by (simp add: with_updates_def ex_cursor_def ex_asset_cursor_def truthy_def py_or_def
      py_set_def py_dict_def is_partitioned_def bool_value_def subset_value_def bind_err_simps
      ex_window_def)

subsection \<open>Deserialization of the legacy list format\<close>

lemma strings_of_map_JString: "strings_of (map JString ks) = Inr ks"
  by (induction ks) (simp_all add: bind_err_simps)

lemma from_serialized_Inr_iff:
  "from_serialized sd data g = Inr cur \<longleftrightarrow>
    (\<exists>f partition_items evaluation_items latest_evaluations key_strs ts_items.
      unpack_fields data = Inr f
      \<and> items (s_handled_root_partitions_by_asset_key f) = Inr partition_items
      \<and> items (s_latest_evaluation_by_asset_key f) = Inr evaluation_items
      \<and> latest_evaluation_loop sd evaluation_items [] = Inr latest_evaluations
      \<and> iter_key_strings (s_handled_root_asset_keys f) = Inr key_strs
      \<and> items (s_last_observe_request_timestamp_by_asset_key f) = Inr ts_items
      \<and> cur = \<lparr> latest_storage_id = s_latest_storage_id f,
            handled_root_asset_keys = py_set (map (from_user_string sd) key_strs),
            handled_root_partitions_by_asset_key =
              handled_root_partitions_loop sd g partition_items [],
            evaluation_id = s_evaluation_id f,
            last_observe_request_timestamp_by_asset_key =
              py_dict [(from_user_string sd key_str, ts). (key_str, ts) \<leftarrow> ts_items],
            latest_evaluation_by_asset_key = latest_evaluations,
            latest_evaluation_timestamp = s_latest_evaluation_timestamp f \<rparr>)"
  unfolding from_serialized_def Let_def bind_err_Inr_iff by (simp add: eq_commute[of cur])

lemma unpack_fields_list:
  "unpack_fields (JList xs) = Inr f \<longleftrightarrow>
     (\<exists>a b c. xs = [a, b, c] \<and> f = \<lparr> s_latest_storage_id = a, s_handled_root_asset_keys = b,
                    s_handled_root_partitions_by_asset_key = c, s_evaluation_id = JInt 0,
                    s_last_observe_request_timestamp_by_asset_key = JObject [],
                    s_latest_evaluation_by_asset_key = JObject [],
                    s_latest_evaluation_timestamp = JInt 0 \<rparr>)
     \<or> (\<exists>a b c d. xs = [a, b, c, d] \<and> f = \<lparr> s_latest_storage_id = a, s_handled_root_asset_keys = b,
                    s_handled_root_partitions_by_asset_key = c, s_evaluation_id = d,
                    s_last_observe_request_timestamp_by_asset_key = JObject [],
                    s_latest_evaluation_by_asset_key = JObject [],
                    s_latest_evaluation_timestamp = JInt 0 \<rparr>)"
  by (auto simp: unpack_fields_def split: list.splits)

lemma unpack_fields_bad_length:
  "length xs \<noteq> 3 \<Longrightarrow> length xs \<noteq> 4 \<Longrightarrow> unpack_fields (JList xs) = Inl CheckError"
  by (auto simp: unpack_fields_def split: list.splits)

lemma items_empty: "items (JObject []) = Inr []"
  by (simp add: items_def py_dict_def)

lemma items_Inr_iff: "items j = Inr d \<longleftrightarrow> (\<exists>kvs. j = JObject kvs \<and> d = py_dict kvs)"
  by (cases j) (auto simp: items_def)

lemma legacy3:
  "from_serialized sd (JList [a, b, c]) g =
     bind_err (items c) (\<lambda>partition_items.
     bind_err (iter_key_strings b) (\<lambda>key_strs.
       Inr \<lparr> latest_storage_id = a,
             handled_root_asset_keys = py_set (map (from_user_string sd) key_strs),
             handled_root_partitions_by_asset_key =
               handled_root_partitions_loop sd g partition_items [],
             evaluation_id = JInt 0,
             last_observe_request_timestamp_by_asset_key = [],
             latest_evaluation_by_asset_key = [],
             latest_evaluation_timestamp = JInt 0 \<rparr>))"
  by (simp add: from_serialized_def unpack_fields_def bind_err_simps items_empty py_dict_def)

lemma legacy4:
  "from_serialized sd (JList [a, b, c, d]) g =
     bind_err (items c) (\<lambda>partition_items.
     bind_err (iter_key_strings b) (\<lambda>key_strs.
       Inr \<lparr> latest_storage_id = a,
             handled_root_asset_keys = py_set (map (from_user_string sd) key_strs),
             handled_root_partitions_by_asset_key =
               handled_root_partitions_loop sd g partition_items [],
             evaluation_id = d,
             last_observe_request_timestamp_by_asset_key = [],
             latest_evaluation_by_asset_key = [],
             latest_evaluation_timestamp = JInt 0 \<rparr>))"
  by (simp add: from_serialized_def unpack_fields_def bind_err_simps items_empty py_dict_def)

lemma legacy3_returns:
  "(\<exists>cur. from_serialized sd (JList [a, b, c]) g = Inr cur)
     \<longleftrightarrow> (\<exists>kvs ks. c = JObject kvs \<and> iter_key_strings b = Inr ks)"
  unfolding legacy3 bind_err_Inr_iff items_Inr_iff by auto

lemma legacy4_returns:
  "(\<exists>cur. from_serialized sd (JList [a, b, c, d]) g = Inr cur)
     \<longleftrightarrow> (\<exists>kvs ks. c = JObject kvs \<and> iter_key_strings b = Inr ks)"
  unfolding legacy4 bind_err_Inr_iff items_Inr_iff by auto

lemma legacy3_fields:
  assumes "from_serialized sd (JList [a, b, c]) g = Inr cur"
  shows "evaluation_id cur = JInt 0" and "latest_storage_id cur = a"
    and "last_observe_request_timestamp_by_asset_key cur = []"
    and "latest_evaluation_by_asset_key cur = []"
    and "latest_evaluation_timestamp cur = JInt 0"
  using assms unfolding legacy3 bind_err_Inr_iff by auto

lemma legacy4_fields:
  assumes "from_serialized sd (JList [a, b, c, d]) g = Inr cur"
  shows "evaluation_id cur = d" and "latest_storage_id cur = a"
    and "last_observe_request_timestamp_by_asset_key cur = []"
    and "latest_evaluation_by_asset_key cur = []"
    and "latest_evaluation_timestamp cur = JInt 0"
  using assms unfolding legacy4 bind_err_Inr_iff by auto

text \<open>
  Claim C7. \<^verbatim>\<open>from_serialized\<close> of a JSON list fails with the invariant's error for
  every list whose length is neither 3 nor 4. A list of three or of four elements is
  read exactly when its third element is an object and its second element can be iterated
  into key strings. The cursor read from a list of three elements has the evaluation id
  0, the first element as its storage id, and no observe timestamps and no evaluations;
  the cursor read from a list of four elements has the fourth element, whatever it is, as
  its evaluation id, and the two maps are empty as well. The list \<open>[100, ["a"], {}]\<close>
  yields evaluation id 0, storage id 100 and the one handled root asset key read from
  \<open>a\<close>; the list \<open>[100, ["a"], {}, 7]\<close> yields evaluation id 7.
\<close>

theorem legacy_list_format:
  "(length xs \<noteq> 3 \<and> length xs \<noteq> 4 \<longrightarrow> from_serialized sd (JList xs) g = Inl CheckError)
   \<and> (\<forall>a b c. (\<exists>cur. from_serialized sd (JList [a, b, c]) g = Inr cur)
         \<longleftrightarrow> (\<exists>kvs ks. c = JObject kvs \<and> iter_key_strings b = Inr ks))
   \<and> (\<forall>a b c cur. from_serialized sd (JList [a, b, c]) g = Inr cur \<longrightarrow>
         evaluation_id cur = JInt 0
         \<and> latest_storage_id cur = a
         \<and> last_observe_request_timestamp_by_asset_key cur = []
         \<and> latest_evaluation_by_asset_key cur = [])
   \<and> (\<forall>a b c d. (\<exists>cur. from_serialized sd (JList [a, b, c, d]) g = Inr cur)
         \<longleftrightarrow> (\<exists>kvs ks. c = JObject kvs \<and> iter_key_strings b = Inr ks))
   \<and> (\<forall>a b c d cur. from_serialized sd (JList [a, b, c, d]) g = Inr cur \<longrightarrow>
         evaluation_id cur = d
         \<and> latest_storage_id cur = a
         \<and> last_observe_request_timestamp_by_asset_key cur = []
         \<and> latest_evaluation_by_asset_key cur = [])
   \<and> from_serialized sd (JList [JInt 100, JList [JString ''a''], JObject []]) g =
       Inr \<lparr> latest_storage_id = JInt 100,
             handled_root_asset_keys = [from_user_string sd ''a''],
             handled_root_partitions_by_asset_key = [],
             evaluation_id = JInt 0,
             last_observe_request_timestamp_by_asset_key = [],
             latest_evaluation_by_asset_key = [],
             latest_evaluation_timestamp = JInt 0 \<rparr>
   \<and> from_serialized sd (JList [JInt 100, JList [JString ''a''], JObject [], JInt 7]) g =
       Inr \<lparr> latest_storage_id = JInt 100,
             handled_root_asset_keys = [from_user_string sd ''a''],
             handled_root_partitions_by_asset_key = [],
             evaluation_id = JInt 7,
             last_observe_request_timestamp_by_asset_key = [],
             latest_evaluation_by_asset_key = [],
             latest_evaluation_timestamp = JInt 0 \<rparr>"
proof -
  have 1: "length xs \<noteq> 3 \<and> length xs \<noteq> 4 \<longrightarrow> from_serialized sd (JList xs) g = Inl CheckError"
    by (simp add: from_serialized_def unpack_fields_bad_length bind_err_simps)
  have 2: "\<forall>a b c. (\<exists>cur. from_serialized sd (JList [a, b, c]) g = Inr cur)
         \<longleftrightarrow> (\<exists>kvs ks. c = JObject kvs \<and> iter_key_strings b = Inr ks)"
    using legacy3_returns by blast
  have 3: "\<forall>a b c cur. from_serialized sd (JList [a, b, c]) g = Inr cur \<longrightarrow>
         evaluation_id cur = JInt 0
         \<and> latest_storage_id cur = a
         \<and> last_observe_request_timestamp_by_asset_key cur = []
         \<and> latest_evaluation_by_asset_key cur = []"
    by (intro allI impI conjI; erule legacy3_fields)
  have 4: "\<forall>a b c d. (\<exists>cur. from_serialized sd (JList [a, b, c, d]) g = Inr cur)
         \<longleftrightarrow> (\<exists>kvs ks. c = JObject kvs \<and> iter_key_strings b = Inr ks)"
    using legacy4_returns by blast
  have 5: "\<forall>a b c d cur. from_serialized sd (JList [a, b, c, d]) g = Inr cur \<longrightarrow>
         evaluation_id cur = d
         \<and> latest_storage_id cur = a
         \<and> last_observe_request_timestamp_by_asset_key cur = []
         \<and> latest_evaluation_by_asset_key cur = []"
    by (intro allI impI conjI; erule legacy4_fields)
  have 6: "from_serialized sd (JList [JInt 100, JList [JString ''a''], JObject []]) g =
       Inr \<lparr> latest_storage_id = JInt 100,
             handled_root_asset_keys = [from_user_string sd ''a''],
             handled_root_partitions_by_asset_key = [],
             evaluation_id = JInt 0,
             last_observe_request_timestamp_by_asset_key = [],
             latest_evaluation_by_asset_key = [],
             latest_evaluation_timestamp = JInt 0 \<rparr>"
    by (simp add: legacy3 items_empty iter_key_strings_def bind_err_simps py_set_def)
  have 7: "from_serialized sd (JList [JInt 100, JList [JString ''a''], JObject [], JInt 7]) g =
       Inr \<lparr> latest_storage_id = JInt 100,
             handled_root_asset_keys = [from_user_string sd ''a''],
             handled_root_partitions_by_asset_key = [],
             evaluation_id = JInt 7,
             last_observe_request_timestamp_by_asset_key = [],
             latest_evaluation_by_asset_key = [],
             latest_evaluation_timestamp = JInt 0 \<rparr>"
    by (simp add: legacy4 items_empty iter_key_strings_def bind_err_simps py_set_def)
  from 1 2 3 4 5 6 7 show ?thesis by blast
qed

text \<open>
  Lists of two and of five elements are refused. The list \<open>[100, ["a"], {}, "x"]\<close> is
  read, and the evaluation id of its cursor is the string \<open>x\<close>; the list
  \<open>[null, ["a"], {"b": "tw"}]\<close> is read with the evaluation id 0 and no storage id; the
  list \<open>[100, null, {}]\<close> is not read.
\<close>

theorem legacy_list_format_witness:
  "from_serialized ex_serdes (JList [JInt 100, JList [JString ''a'']]) ex_graph = Inl CheckError
   \<and> from_serialized ex_serdes
        (JList [JInt 100, JList [JString ''a''], JObject [], JInt 7, JNull]) ex_graph
      = Inl CheckError
   \<and> (\<exists>cur. from_serialized ex_serdes
          (JList [JInt 100, JList [JString ''a''], JObject [], JString ''x'']) ex_graph = Inr cur
        \<and> evaluation_id cur = JString ''x'' \<and> latest_storage_id cur = JInt 100)
   \<and> (\<exists>cur. from_serialized ex_serdes
          (JList [JNull, JList [JString ''a''], JObject [(''b'', JString ''tw'')]]) ex_graph = Inr cur
        \<and> evaluation_id cur = JInt 0 \<and> latest_storage_id cur = JNull
        \<and> latest_evaluation_by_asset_key cur = [])
   \<and> (\<nexists>cur. from_serialized ex_serdes (JList [JInt 100, JNull, JObject []]) ex_graph = Inr cur)
   \<and> from_serialized ex_serdes (JList [JInt 100, JList [JString ''a''], JObject []]) ex_graph =
       Inr \<lparr> latest_storage_id = JInt 100,
             handled_root_asset_keys = [''a''],
             handled_root_partitions_by_asset_key = [],
             evaluation_id = JInt 0,
             last_observe_request_timestamp_by_asset_key = [],
             latest_evaluation_by_asset_key = [],
             latest_evaluation_timestamp = JInt 0 \<rparr>"
proof -
  note t = legacy_list_format[where sd = ex_serdes and g = ex_graph]
  have a: "from_serialized ex_serdes (JList [JInt 100, JList [JString ''a'']]) ex_graph
      = Inl CheckError"
    using t[where xs = "[JInt 100, JList [JString ''a'']]", THEN conjunct1] by simp
  have b: "from_serialized ex_serdes
        (JList [JInt 100, JList [JString ''a''], JObject [], JInt 7, JNull]) ex_graph
      = Inl CheckError"
    using t[where xs = "[JInt 100, JList [JString ''a''], JObject [], JInt 7, JNull]",
        THEN conjunct1] by simp
  have three: "\<forall>a b c. (\<exists>cur. from_serialized ex_serdes (JList [a, b, c]) ex_graph = Inr cur)
         \<longleftrightarrow> (\<exists>kvs ks. c = JObject kvs \<and> iter_key_strings b = Inr ks)"
    and three': "\<forall>a b c cur. from_serialized ex_serdes (JList [a, b, c]) ex_graph = Inr cur \<longrightarrow>
         evaluation_id cur = JInt 0
         \<and> latest_storage_id cur = a
         \<and> last_observe_request_timestamp_by_asset_key cur = []
         \<and> latest_evaluation_by_asset_key cur = []"
    and four: "\<forall>a b c d. (\<exists>cur. from_serialized ex_serdes (JList [a, b, c, d]) ex_graph = Inr cur)
         \<longleftrightarrow> (\<exists>kvs ks. c = JObject kvs \<and> iter_key_strings b = Inr ks)"
    and four': "\<forall>a b c d cur. from_serialized ex_serdes (JList [a, b, c, d]) ex_graph = Inr cur \<longrightarrow>
         evaluation_id cur = d
         \<and> latest_storage_id cur = a
         \<and> last_observe_request_timestamp_by_asset_key cur = []
         \<and> latest_evaluation_by_asset_key cur = []"
    using t[where xs = "[]"] by blast+
  have ks: "iter_key_strings (JList [JString ''a'']) = Inr [''a'']"
    by (simp add: iter_key_strings_def bind_err_simps)
  from four ks obtain cur4 where c4: "from_serialized ex_serdes
          (JList [JInt 100, JList [JString ''a''], JObject [], JString ''x'']) ex_graph = Inr cur4"
    by blast
  with four' have c: "\<exists>cur. from_serialized ex_serdes
          (JList [JInt 100, JList [JString ''a''], JObject [], JString ''x'']) ex_graph = Inr cur
        \<and> evaluation_id cur = JString ''x'' \<and> latest_storage_id cur = JInt 100"
    by blast
  from three ks obtain cur3 where c3: "from_serialized ex_serdes
          (JList [JNull, JList [JString ''a''], JObject [(''b'', JString ''tw'')]]) ex_graph = Inr cur3"
    by blast
  with three' have d: "\<exists>cur. from_serialized ex_serdes
          (JList [JNull, JList [JString ''a''], JObject [(''b'', JString ''tw'')]]) ex_graph = Inr cur
        \<and> evaluation_id cur = JInt 0 \<and> latest_storage_id cur = JNull
        \<and> latest_evaluation_by_asset_key cur = []"
    by blast
  have "\<nexists>kvs ks. JObject [] = JObject kvs \<and> iter_key_strings JNull = Inr ks"
    by (simp add: iter_key_strings_def)
  with three have e: "\<nexists>cur. from_serialized ex_serdes (JList [JInt 100, JNull, JObject []]) ex_graph
      = Inr cur" by blast
  have f: "from_serialized ex_serdes (JList [JInt 100, JList [JString ''a''], JObject []]) ex_graph =
       Inr \<lparr> latest_storage_id = JInt 100,
             handled_root_asset_keys = [''a''],
             handled_root_partitions_by_asset_key = [],
             evaluation_id = JInt 0,
             last_observe_request_timestamp_by_asset_key = [],
             latest_evaluation_by_asset_key = [],
             latest_evaluation_timestamp = JInt 0 \<rparr>"
    using t[where xs = "[]", THEN conjunct2, THEN conjunct2, THEN conjunct2, THEN conjunct2,
        THEN conjunct2, THEN conjunct1]
    by (simp add: ex_serdes_def)
  from a b c d e f show ?thesis by blast
qed

subsection \<open>The evaluation id of a serialized cursor\<close>

lemma unpack_fields_object_evaluation_id:
  "unpack_fields (JObject kvs) = Inr f \<Longrightarrow>
     subscript (py_dict kvs) ''evaluation_id'' = Inr (s_evaluation_id f)"
  by (auto simp: unpack_fields_def Let_def bind_err_Inr_iff)

lemma unpack_fields_shape:
  "unpack_fields data = Inr f \<Longrightarrow> (\<exists>xs. data = JList xs) \<or> (\<exists>kvs. data = JObject kvs)"
  by (cases data) (simp_all add: unpack_fields_def)

lemma subscript_KeyError: "subscript d k = Inl e \<Longrightarrow> e = KeyError"
  by (auto simp: subscript_def split: option.splits)

lemma unpack_fields_object_error:
  "subscript (py_dict kvs) ''evaluation_id'' = Inl e \<Longrightarrow> unpack_fields (JObject kvs) = Inl e"
  by (auto simp: unpack_fields_def Let_def bind_err_Inl_iff bind_err_Inr_iff subscript_def
      split: option.splits)

lemma peek_error:
  assumes "get_evaluation_id_from_serialized data = Inl e"
  shows "unpack_fields data = Inl e"
proof (cases data)
  case (JList xs)
  with assms show ?thesis
    by (auto simp: get_evaluation_id_from_serialized_def unpack_fields_def split: list.splits)
next
  case (JObject kvs)
  with assms show ?thesis
    by (simp add: get_evaluation_id_from_serialized_def unpack_fields_object_error)
qed (use assms in \<open>simp_all add: get_evaluation_id_from_serialized_def unpack_fields_def\<close>)

text \<open>
  Claim C4, as the code has it. For every document that \<^verbatim>\<open>from_serialized\<close> accepts,
  \<^verbatim>\<open>get_evaluation_id_from_serialized\<close> returns the value held as the evaluation id of
  the deserialized cursor, in the legacy list format with four elements and in the map
  format; for a legacy list of three elements it returns \<^verbatim>\<open>None\<close>, where the deserialized
  cursor has the evaluation id 0. Where the peek raises, \<^verbatim>\<open>from_serialized\<close> raises the
  same error.
\<close>

theorem evaluation_id_peek:
  "(from_serialized sd data g = Inr cur \<longrightarrow>
     (if (\<exists>a b c. data = JList [a, b, c])
      then get_evaluation_id_from_serialized data = Inr JNull \<and> evaluation_id cur = JInt 0
      else get_evaluation_id_from_serialized data = Inr (evaluation_id cur)))
   \<and> (get_evaluation_id_from_serialized data = Inl e \<longrightarrow> from_serialized sd data g = Inl e)"
proof (intro conjI impI)
  assume h: "from_serialized sd data g = Inr cur"
  then obtain f where f: "unpack_fields data = Inr f"
    and e: "evaluation_id cur = s_evaluation_id f"
    unfolding from_serialized_Inr_iff by auto
  from unpack_fields_shape[OF f]
  show "if (\<exists>a b c. data = JList [a, b, c])
      then get_evaluation_id_from_serialized data = Inr JNull \<and> evaluation_id cur = JInt 0
      else get_evaluation_id_from_serialized data = Inr (evaluation_id cur)"
  proof
    assume "\<exists>xs. data = JList xs"
    then obtain xs where xs: "data = JList xs" by blast
    from f[unfolded xs unpack_fields_list] show ?thesis
    proof
      assume "\<exists>a b c. xs = [a, b, c] \<and> f = \<lparr> s_latest_storage_id = a, s_handled_root_asset_keys = b,
                    s_handled_root_partitions_by_asset_key = c, s_evaluation_id = JInt 0,
                    s_last_observe_request_timestamp_by_asset_key = JObject [],
                    s_latest_evaluation_by_asset_key = JObject [],
                    s_latest_evaluation_timestamp = JInt 0 \<rparr>"
      then obtain a b c where "xs = [a, b, c]" "s_evaluation_id f = JInt 0" by auto
      with e xs show ?thesis by (simp add: get_evaluation_id_from_serialized_def)
    next
      assume "\<exists>a b c d. xs = [a, b, c, d] \<and> f = \<lparr> s_latest_storage_id = a, s_handled_root_asset_keys = b,
                    s_handled_root_partitions_by_asset_key = c, s_evaluation_id = d,
                    s_last_observe_request_timestamp_by_asset_key = JObject [],
                    s_latest_evaluation_by_asset_key = JObject [],
                    s_latest_evaluation_timestamp = JInt 0 \<rparr>"
      then obtain a b c d where "xs = [a, b, c, d]" "s_evaluation_id f = d" by auto
      with e xs show ?thesis by (simp add: get_evaluation_id_from_serialized_def)
    qed
  next
    assume "\<exists>kvs. data = JObject kvs"
    then obtain kvs where kvs: "data = JObject kvs" by blast
    from unpack_fields_object_evaluation_id[OF f[unfolded kvs]] e kvs show ?thesis
      by (simp add: get_evaluation_id_from_serialized_def)
  qed
next
  assume "get_evaluation_id_from_serialized data = Inl e"
  from peek_error[OF this] show "from_serialized sd data g = Inl e"
    by (simp add: from_serialized_def bind_err_simps)
qed

lemma ex_legacy4:
  "from_serialized ex_serdes (JList [JInt 100, JList [JString ''a''], JObject [], d]) ex_graph =
       Inr \<lparr> latest_storage_id = JInt 100,
             handled_root_asset_keys = [''a''],
             handled_root_partitions_by_asset_key = [],
             evaluation_id = d,
             last_observe_request_timestamp_by_asset_key = [],
             latest_evaluation_by_asset_key = [],
             latest_evaluation_timestamp = JInt 0 \<rparr>"
  by (simp add: legacy4 items_empty iter_key_strings_def bind_err_simps py_set_def ex_serdes_def)

lemma ex_legacy3:
  "from_serialized ex_serdes (JList [JInt 100, JList [JString ''a''], JObject []]) ex_graph =
       Inr \<lparr> latest_storage_id = JInt 100,
             handled_root_asset_keys = [''a''],
             handled_root_partitions_by_asset_key = [],
             evaluation_id = JInt 0,
             last_observe_request_timestamp_by_asset_key = [],
             latest_evaluation_by_asset_key = [],
             latest_evaluation_timestamp = JInt 0 \<rparr>"
  by (simp add: legacy3 items_empty iter_key_strings_def bind_err_simps py_set_def ex_serdes_def)

lemma ex_map:
  "from_serialized ex_serdes
     (JObject [(''latest_storage_id'', JNull), (''handled_root_asset_keys'', JList []),
               (''handled_root_partitions_by_asset_key'', JObject []),
               (''evaluation_id'', JInt 9)]) ex_graph =
       Inr \<lparr> latest_storage_id = JNull,
             handled_root_asset_keys = [],
             handled_root_partitions_by_asset_key = [],
             evaluation_id = JInt 9,
             last_observe_request_timestamp_by_asset_key = [],
             latest_evaluation_by_asset_key = [],
             latest_evaluation_timestamp = JInt 0 \<rparr>"
  by (simp add: from_serialized_def unpack_fields_def py_dict_def subscript_def
      dict_get_default_def bind_err_simps items_def iter_key_strings_def py_set_def)

text \<open>
  The lists \<open>[100, ["a"], {}, 7]\<close>, \<open>[100, ["a"], {}, null]\<close> and
  \<open>[100, ["a"], {}, "x"]\<close> and a document of the map format are accepted, and the
  peek returns what the cursor holds; the list \<open>[100, ["a"], {}]\<close> is accepted, and the
  peek returns \<^verbatim>\<open>None\<close>; the document \<open>{}\<close> makes the peek and \<^verbatim>\<open>from_serialized\<close> raise
  the same error.
\<close>

theorem evaluation_id_peek_witness:
  "(\<exists>cur. from_serialized ex_serdes
        (JList [JInt 100, JList [JString ''a''], JObject [], JInt 7]) ex_graph = Inr cur
      \<and> evaluation_id cur = JInt 7)
   \<and> get_evaluation_id_from_serialized
       (JList [JInt 100, JList [JString ''a''], JObject [], JInt 7]) = Inr (JInt 7)
   \<and> (\<exists>cur. from_serialized ex_serdes
        (JList [JInt 100, JList [JString ''a''], JObject [], JNull]) ex_graph = Inr cur
      \<and> evaluation_id cur = JNull)
   \<and> get_evaluation_id_from_serialized
       (JList [JInt 100, JList [JString ''a''], JObject [], JNull]) = Inr JNull
   \<and> (\<exists>cur. from_serialized ex_serdes
        (JList [JInt 100, JList [JString ''a''], JObject [], JString ''x'']) ex_graph = Inr cur
      \<and> evaluation_id cur = JString ''x'')
   \<and> get_evaluation_id_from_serialized
       (JList [JInt 100, JList [JString ''a''], JObject [], JString ''x'']) = Inr (JString ''x'')
   \<and> (\<exists>cur. from_serialized ex_serdes
        (JObject [(''latest_storage_id'', JNull), (''handled_root_asset_keys'', JList []),
                  (''handled_root_partitions_by_asset_key'', JObject []),
                  (''evaluation_id'', JInt 9)]) ex_graph = Inr cur
      \<and> evaluation_id cur = JInt 9)
   \<and> get_evaluation_id_from_serialized
        (JObject [(''latest_storage_id'', JNull), (''handled_root_asset_keys'', JList []),
                  (''handled_root_partitions_by_asset_key'', JObject []),
                  (''evaluation_id'', JInt 9)]) = Inr (JInt 9)
   \<and> (\<exists>cur. from_serialized ex_serdes
        (JList [JInt 100, JList [JString ''a''], JObject []]) ex_graph = Inr cur
      \<and> evaluation_id cur = JInt 0)
   \<and> get_evaluation_id_from_serialized
       (JList [JInt 100, JList [JString ''a''], JObject []]) = Inr JNull
   \<and> get_evaluation_id_from_serialized (JObject []) = Inl KeyError
   \<and> from_serialized ex_serdes (JObject []) ex_graph = Inl KeyError"
proof -
  have k: "get_evaluation_id_from_serialized (JObject []) = Inl KeyError"
    by (simp add: get_evaluation_id_from_serialized_def py_dict_def subscript_def)
  show ?thesis
    using evaluation_id_peek[THEN conjunct1, rule_format, OF ex_legacy4[of "JInt 7"]]
      evaluation_id_peek[THEN conjunct1, rule_format, OF ex_legacy4[of JNull]]
      evaluation_id_peek[THEN conjunct1, rule_format, OF ex_legacy4[of "JString ''x''"]]
      evaluation_id_peek[THEN conjunct1, rule_format, OF ex_map]
      evaluation_id_peek[THEN conjunct1, rule_format, OF ex_legacy3]
      evaluation_id_peek[THEN conjunct2, rule_format, OF k, of ex_serdes ex_graph]
    by (simp add: ex_legacy4 ex_legacy3 ex_map k)
qed

text \<open>
  Claim C4 as stated fails on the legacy list \<open>[100, ["a"], {}]\<close>: the peek returns
  \<^verbatim>\<open>None\<close>, not the 0 that the deserialized cursor holds.
\<close>

theorem evaluation_id_peek_counterexample:
  "get_evaluation_id_from_serialized (JList [JInt 100, JList [JString ''a''], JObject []])
     = Inr JNull
   \<and> from_serialized ex_serdes (JList [JInt 100, JList [JString ''a''], JObject []]) ex_graph =
       Inr \<lparr> latest_storage_id = JInt 100,
             handled_root_asset_keys = [''a''],
             handled_root_partitions_by_asset_key = [],
             evaluation_id = JInt 0,
             last_observe_request_timestamp_by_asset_key = [],
             latest_evaluation_by_asset_key = [],
             latest_evaluation_timestamp = JInt 0 \<rparr>
   \<and> JNull \<noteq> JInt 0"
  by (simp add: legacy3 items_empty iter_key_strings_def bind_err_simps py_set_def ex_serdes_def
      get_evaluation_id_from_serialized_def)

subsection \<open>Subsets that do not decode\<close>

lemma loop_other_keys:
  "\<forall>(ks, s) \<in> set entries. from_user_string sd ks \<noteq> key \<Longrightarrow>
   map_of (handled_root_partitions_loop sd g entries acc) key = map_of acc key"
proof (induction entries arbitrary: acc)
  case Nil
  show ?case by simp
next
  case (Cons e entries)
  obtain ks s where e: "e = (ks, s)" by (cases e)
  from Cons.prems e have ne: "from_user_string sd ks \<noteq> key"
    and rest: "\<forall>(ks, s) \<in> set entries. from_user_string sd ks \<noteq> key" by auto
  show ?case
    using ne by (simp add: e Let_def Cons.IH[OF rest] update_conv' split: option.splits)
qed

lemma loop_key:
  assumes "key \<in> materializable_asset_keys g" and "get_partitions_def g key = Some d"
    and "\<forall>(ks, s) \<in> set entries. from_user_string sd ks = key \<longrightarrow> decode_subset d s = v"
    and "\<exists>(ks, s) \<in> set entries. from_user_string sd ks = key"
  shows "map_of (handled_root_partitions_loop sd g entries acc) key = Some v"
  using assms(3,4)
proof (induction entries arbitrary: acc)
  case Nil
  then show ?case by simp
next
  case (Cons e entries)
  obtain ks s where e: "e = (ks, s)" by (cases e)
  from Cons.prems(1) have all: "\<forall>(ks, s) \<in> set entries. from_user_string sd ks = key \<longrightarrow> decode_subset d s = v"
    by auto
  show ?case
  proof (cases "\<exists>(ks, s) \<in> set entries. from_user_string sd ks = key")
    case True
    have "\<And>acc'. map_of (handled_root_partitions_loop sd g entries acc') key = Some v"
      using Cons.IH[OF all True] .
    then show ?thesis by (simp add: e Let_def split: option.splits)
  next
    case False
    then have none: "\<forall>(ks, s) \<in> set entries. from_user_string sd ks \<noteq> key" by auto
    from False Cons.prems(2) e have k: "from_user_string sd ks = key" by auto
    with Cons.prems(1) e have v: "decode_subset d s = v" by auto
    show ?thesis
      using k v assms(1,2) by (simp add: e Let_def loop_other_keys[OF none] update_conv')
  qed
qed

lemma decode_subset_empty:
  "deserialize_subset d s = None
     \<or> (\<exists>ws st. deserialize_subset d s = Some (TimeWindowPartitionsSubset ws)
           \<and> pd_start d = Some st
           \<and> (\<exists>w \<in> set ws. instant (tw_start w) < instant st))
   \<Longrightarrow> decode_subset d s = empty_subset d"
  by (auto simp: decode_subset_def starts_before_start_def list_ex_iff)

lemma items_distinct: "items j = Inr entries \<Longrightarrow> distinct (map fst entries)"
  by (cases j) (auto simp: items_def distinct_py_dict)

lemma from_serialized_error_graph:
  "from_serialized sd data g = Inl e \<longleftrightarrow> from_serialized sd data g' = Inl e"
  by (simp add: from_serialized_def Let_def bind_err_Inl_iff)

lemma from_serialized_returns_iff:
  "(\<exists>cur. from_serialized sd data g = Inr cur) \<longleftrightarrow>
     (\<exists>f entries evaluation_items latest_evaluations key_strs ts_items.
        unpack_fields data = Inr f
        \<and> items (s_handled_root_partitions_by_asset_key f) = Inr entries
        \<and> items (s_latest_evaluation_by_asset_key f) = Inr evaluation_items
        \<and> latest_evaluation_loop sd evaluation_items [] = Inr latest_evaluations
        \<and> iter_key_strings (s_handled_root_asset_keys f) = Inr key_strs
        \<and> items (s_last_observe_request_timestamp_by_asset_key f) = Inr ts_items)"
  unfolding from_serialized_Inr_iff by blast

lemma from_serialized_partitions:
  assumes "from_serialized sd data g = Inr cur"
    and "unpack_fields data = Inr f"
    and "items (s_handled_root_partitions_by_asset_key f) = Inr entries"
  shows "handled_root_partitions_by_asset_key cur = handled_root_partitions_loop sd g entries []"
  using assms unfolding from_serialized_Inr_iff by auto

lemma entry_emptied:
  assumes h: "from_serialized sd data g = Inr cur"
    and f: "unpack_fields data = Inr f"
    and entries: "items (s_handled_root_partitions_by_asset_key f) = Inr entries"
    and m: "(key_str, serialized_subset) \<in> set entries"
    and mat: "from_user_string sd key_str \<in> materializable_asset_keys g"
    and pd: "get_partitions_def g (from_user_string sd key_str) = Some d"
    and u: "\<forall>(ks, s) \<in> set entries.
           from_user_string sd ks = from_user_string sd key_str \<longrightarrow> ks = key_str"
    and bad: "deserialize_subset d serialized_subset = None
         \<or> (\<exists>ws st. deserialize_subset d serialized_subset = Some (TimeWindowPartitionsSubset ws)
               \<and> pd_start d = Some st
               \<and> (\<exists>w \<in> set ws. instant (tw_start w) < instant st))"
  shows "map_of (handled_root_partitions_by_asset_key cur) (from_user_string sd key_str)
          = Some (empty_subset d)"
proof -
  have d: "distinct (map fst entries)" by (rule items_distinct[OF entries])
  have all: "\<forall>(ks, s) \<in> set entries. from_user_string sd ks = from_user_string sd key_str
               \<longrightarrow> decode_subset d s = empty_subset d"
  proof (clarify)
    fix ks s
    assume ms: "(ks, s) \<in> set entries"
      and k: "from_user_string sd ks = from_user_string sd key_str"
    from u ms k have "ks = key_str" by auto
    with d ms m have "s = serialized_subset" by (meson eq_key_imp_eq_value)
    then show "decode_subset d s = empty_subset d"
      using decode_subset_empty[OF bad] by simp
  qed
  have ex: "\<exists>(ks, s) \<in> set entries. from_user_string sd ks = from_user_string sd key_str"
    using m by auto
  show ?thesis
    unfolding from_serialized_partitions[OF h f entries] by (rule loop_key[OF mat pd all ex])
qed

text \<open>
  Claim C6. Whether \<^verbatim>\<open>from_serialized\<close> returns a cursor is decided by the parts of the
  document that are read outside the \<^verbatim>\<open>try\<close> block: the fields are there, the three
  maps are objects, the evaluations deserialize and the handled root asset keys can be
  iterated into strings. Neither the asset graph nor what a partitions definition decodes
  or raises takes part in it, and \<^verbatim>\<open>from_serialized\<close> fails with an error on one asset
  graph exactly when it fails with that error on any other. On such a document, take an
  entry of the decoded handled root partitions whose key string reads as a materializable
  asset with a partitions definition, no other entry reading as the same asset key. If
  decoding its serialized subset raises, or the decoded subset is time-windowed, the
  definition is time-windowed and some included window starts before the definition's
  start, then \<^verbatim>\<open>from_serialized\<close> returns a cursor, and the cursor maps the key to the
  definition's empty subset.
\<close>

theorem undecodable_subset_is_empty:
  "(\<forall>g' e. from_serialized sd data g = Inl e \<longleftrightarrow> from_serialized sd data g' = Inl e)
   \<and> ((\<exists>cur. from_serialized sd data g = Inr cur) \<longleftrightarrow>
        (\<exists>f entries evaluation_items latest_evaluations key_strs ts_items.
           unpack_fields data = Inr f
           \<and> items (s_handled_root_partitions_by_asset_key f) = Inr entries
           \<and> items (s_latest_evaluation_by_asset_key f) = Inr evaluation_items
           \<and> latest_evaluation_loop sd evaluation_items [] = Inr latest_evaluations
           \<and> iter_key_strings (s_handled_root_asset_keys f) = Inr key_strs
           \<and> items (s_last_observe_request_timestamp_by_asset_key f) = Inr ts_items))
   \<and> (\<forall>f entries evaluation_items latest_evaluations key_strs ts_items
         key_str serialized_subset d.
         unpack_fields data = Inr f
         \<and> items (s_handled_root_partitions_by_asset_key f) = Inr entries
         \<and> items (s_latest_evaluation_by_asset_key f) = Inr evaluation_items
         \<and> latest_evaluation_loop sd evaluation_items [] = Inr latest_evaluations
         \<and> iter_key_strings (s_handled_root_asset_keys f) = Inr key_strs
         \<and> items (s_last_observe_request_timestamp_by_asset_key f) = Inr ts_items
         \<and> (key_str, serialized_subset) \<in> set entries
         \<and> from_user_string sd key_str \<in> materializable_asset_keys g
         \<and> get_partitions_def g (from_user_string sd key_str) = Some d
         \<and> (\<forall>(ks, s) \<in> set entries.
               from_user_string sd ks = from_user_string sd key_str \<longrightarrow> ks = key_str)
         \<and> (deserialize_subset d serialized_subset = None
             \<or> (\<exists>ws st. deserialize_subset d serialized_subset
                            = Some (TimeWindowPartitionsSubset ws)
                   \<and> pd_start d = Some st
                   \<and> (\<exists>w \<in> set ws. instant (tw_start w) < instant st)))
         \<longrightarrow> (\<exists>cur. from_serialized sd data g = Inr cur
                \<and> map_of (handled_root_partitions_by_asset_key cur) (from_user_string sd key_str)
                    = Some (empty_subset d)))"
proof (intro conjI allI impI)
  fix g' e
  show "from_serialized sd data g = Inl e \<longleftrightarrow> from_serialized sd data g' = Inl e"
    by (rule from_serialized_error_graph)
next
  show "(\<exists>cur. from_serialized sd data g = Inr cur) \<longleftrightarrow>
        (\<exists>f entries evaluation_items latest_evaluations key_strs ts_items.
           unpack_fields data = Inr f
           \<and> items (s_handled_root_partitions_by_asset_key f) = Inr entries
           \<and> items (s_latest_evaluation_by_asset_key f) = Inr evaluation_items
           \<and> latest_evaluation_loop sd evaluation_items [] = Inr latest_evaluations
           \<and> iter_key_strings (s_handled_root_asset_keys f) = Inr key_strs
           \<and> items (s_last_observe_request_timestamp_by_asset_key f) = Inr ts_items)"
    by (rule from_serialized_returns_iff)
next
  fix f entries evaluation_items latest_evaluations key_strs ts_items
    key_str serialized_subset d
  assume a: "unpack_fields data = Inr f
         \<and> items (s_handled_root_partitions_by_asset_key f) = Inr entries
         \<and> items (s_latest_evaluation_by_asset_key f) = Inr evaluation_items
         \<and> latest_evaluation_loop sd evaluation_items [] = Inr latest_evaluations
         \<and> iter_key_strings (s_handled_root_asset_keys f) = Inr key_strs
         \<and> items (s_last_observe_request_timestamp_by_asset_key f) = Inr ts_items
         \<and> (key_str, serialized_subset) \<in> set entries
         \<and> from_user_string sd key_str \<in> materializable_asset_keys g
         \<and> get_partitions_def g (from_user_string sd key_str) = Some d
         \<and> (\<forall>(ks, s) \<in> set entries.
               from_user_string sd ks = from_user_string sd key_str \<longrightarrow> ks = key_str)
         \<and> (deserialize_subset d serialized_subset = None
             \<or> (\<exists>ws st. deserialize_subset d serialized_subset
                            = Some (TimeWindowPartitionsSubset ws)
                   \<and> pd_start d = Some st
                   \<and> (\<exists>w \<in> set ws. instant (tw_start w) < instant st)))"
  then have "\<exists>f entries evaluation_items latest_evaluations key_strs ts_items.
           unpack_fields data = Inr f
           \<and> items (s_handled_root_partitions_by_asset_key f) = Inr entries
           \<and> items (s_latest_evaluation_by_asset_key f) = Inr evaluation_items
           \<and> latest_evaluation_loop sd evaluation_items [] = Inr latest_evaluations
           \<and> iter_key_strings (s_handled_root_asset_keys f) = Inr key_strs
           \<and> items (s_last_observe_request_timestamp_by_asset_key f) = Inr ts_items"
    by blast
  then have "\<exists>cur. from_serialized sd data g = Inr cur"
    by (rule from_serialized_returns_iff[THEN iffD2])
  then obtain cur where h: "from_serialized sd data g = Inr cur" by blast
  from a have f: "unpack_fields data = Inr f"
    and entries: "items (s_handled_root_partitions_by_asset_key f) = Inr entries"
    and m: "(key_str, serialized_subset) \<in> set entries"
    and mat: "from_user_string sd key_str \<in> materializable_asset_keys g"
    and pd: "get_partitions_def g (from_user_string sd key_str) = Some d"
    and u: "\<forall>(ks, s) \<in> set entries.
               from_user_string sd ks = from_user_string sd key_str \<longrightarrow> ks = key_str"
    and bad: "deserialize_subset d serialized_subset = None
             \<or> (\<exists>ws st. deserialize_subset d serialized_subset
                            = Some (TimeWindowPartitionsSubset ws)
                   \<and> pd_start d = Some st
                   \<and> (\<exists>w \<in> set ws. instant (tw_start w) < instant st))"
    by blast+
  from h entry_emptied[OF h f entries m mat pd u bad]
  show "\<exists>cur. from_serialized sd data g = Inr cur
                \<and> map_of (handled_root_partitions_by_asset_key cur) (from_user_string sd key_str)
                    = Some (empty_subset d)"
    by blast
qed

text \<open>
  A document of the map format with an evaluation and three handled partitions. The
  definition of \<open>b\<close> decodes \<open>tw\<close> to a window that starts at 0, before its start 5; the
  definition of \<open>d\<close> raises on \<open>garbage\<close>; \<open>c\<close> is not materializable.
  \<^verbatim>\<open>from_serialized\<close> returns a cursor that maps \<open>b\<close> and \<open>d\<close> to the empty subset.
\<close>

theorem undecodable_subset_is_empty_witness:
  "deserialize_subset ex_partitions_def (JString ''tw'') = Some ex_window
   \<and> pd_start ex_partitions_def = Some (Datetime 5)
   \<and> deserialize_subset ex_partitions_def (JString ''garbage'') = None
   \<and> (\<exists>cur. from_serialized ex_serdes ex_document ex_graph = Inr cur
        \<and> map_of (handled_root_partitions_by_asset_key cur) ''b''
            = Some (TimeWindowPartitionsSubset [])
        \<and> map_of (handled_root_partitions_by_asset_key cur) ''d''
            = Some (TimeWindowPartitionsSubset []))"
proof -
  define f where "f = \<lparr> s_latest_storage_id = JInt 100,
             s_handled_root_asset_keys = JList [JString ''a''],
             s_handled_root_partitions_by_asset_key =
               JObject [(''b'', JString ''tw''), (''d'', JString ''garbage''), (''c'', JInt 1)],
             s_evaluation_id = JInt 7,
             s_last_observe_request_timestamp_by_asset_key = JObject [],
             s_latest_evaluation_by_asset_key = JObject [(''a'', JString ''a'')],
             s_latest_evaluation_timestamp = JInt 0 \<rparr>"
  let ?entries = "[(''b'', JString ''tw''), (''d'', JString ''garbage''), (''c'', JInt 1)]"
  have un: "unpack_fields ex_document = Inr f"
    by (simp add: f_def ex_document_def unpack_fields_def py_dict_def subscript_def
        dict_get_default_def bind_err_simps)
  have it: "items (s_handled_root_partitions_by_asset_key f) = Inr ?entries"
    by (simp add: f_def items_def py_dict_def)
  have ev: "items (s_latest_evaluation_by_asset_key f) = Inr [(''a'', JString ''a'')]"
    by (simp add: f_def items_def py_dict_def)
  have lp: "latest_evaluation_loop ex_serdes [(''a'', JString ''a'')] []
      = Inr [(''a'', \<lparr> ev_asset_key = ''a'', is_empty = False, ev_body = () \<rparr>)]"
    by (simp add: ex_serdes_def)
  have ks: "iter_key_strings (s_handled_root_asset_keys f) = Inr [''a'']"
    by (simp add: f_def iter_key_strings_def bind_err_simps)
  have ts: "items (s_last_observe_request_timestamp_by_asset_key f) = Inr []"
    by (simp add: f_def items_empty)
  have dec: "deserialize_subset ex_partitions_def (JString ''tw'') = Some ex_window"
    and st: "pd_start ex_partitions_def = Some (Datetime 5)"
    and gar: "deserialize_subset ex_partitions_def (JString ''garbage'') = None"
    and emp: "empty_subset ex_partitions_def = TimeWindowPartitionsSubset []"
    by (simp_all add: ex_partitions_def_def)
  note t = undecodable_subset_is_empty[where sd = ex_serdes and data = ex_document
      and g = ex_graph, THEN conjunct2, THEN conjunct2, rule_format,
      where f = f and entries = ?entries and d = ex_partitions_def
        and evaluation_items = "[(''a'', JString ''a'')]"
        and latest_evaluations = "[(''a'', \<lparr> ev_asset_key = ''a'', is_empty = False, ev_body = () \<rparr>)]"
        and key_strs = "[''a'']" and ts_items = "[]"]
  have b: "\<exists>cur. from_serialized ex_serdes ex_document ex_graph = Inr cur
      \<and> map_of (handled_root_partitions_by_asset_key cur) (from_user_string ex_serdes ''b'')
          = Some (empty_subset ex_partitions_def)"
  proof (rule t[where key_str = "''b''" and serialized_subset = "JString ''tw''"],
      intro conjI)
    show "deserialize_subset ex_partitions_def (JString ''tw'') = None
         \<or> (\<exists>ws st. deserialize_subset ex_partitions_def (JString ''tw'')
                 = Some (TimeWindowPartitionsSubset ws)
               \<and> pd_start ex_partitions_def = Some st
               \<and> (\<exists>w \<in> set ws. instant (tw_start w) < instant st))"
      by (simp add: ex_partitions_def_def ex_window_def)
  qed (rule un, rule it, rule ev, rule lp, rule ks, rule ts, simp,
      simp add: ex_serdes_def ex_graph_def, simp add: ex_serdes_def ex_graph_def,
      simp add: ex_serdes_def)
  have d: "\<exists>cur. from_serialized ex_serdes ex_document ex_graph = Inr cur
      \<and> map_of (handled_root_partitions_by_asset_key cur) (from_user_string ex_serdes ''d'')
          = Some (empty_subset ex_partitions_def)"
  proof (rule t[where key_str = "''d''" and serialized_subset = "JString ''garbage''"],
      intro conjI)
    show "deserialize_subset ex_partitions_def (JString ''garbage'') = None
         \<or> (\<exists>ws st. deserialize_subset ex_partitions_def (JString ''garbage'')
                 = Some (TimeWindowPartitionsSubset ws)
               \<and> pd_start ex_partitions_def = Some st
               \<and> (\<exists>w \<in> set ws. instant (tw_start w) < instant st))"
      by (simp add: gar)
  qed (rule un, rule it, rule ev, rule lp, rule ks, rule ts, simp,
      simp add: ex_serdes_def ex_graph_def, simp add: ex_serdes_def ex_graph_def,
      simp add: ex_serdes_def)
  from b d have "\<exists>cur. from_serialized ex_serdes ex_document ex_graph = Inr cur
        \<and> map_of (handled_root_partitions_by_asset_key cur) ''b''
            = Some (TimeWindowPartitionsSubset [])
        \<and> map_of (handled_root_partitions_by_asset_key cur) ''d''
            = Some (TimeWindowPartitionsSubset [])"
    by (auto simp: emp ex_serdes_def)
  with dec st gar show ?thesis by blast
qed

subsection \<open>Round trip\<close>

lemma update_new: "k \<notin> fst ` set al \<Longrightarrow> AList.update k v al = al @ [(k, v)]"
  by (induction al) auto

lemma fold_update_distinct:
  "distinct (map fst (acc @ kvs)) \<Longrightarrow>
   fold (\<lambda>(k, v) d. AList.update k v d) kvs acc = acc @ kvs"
proof (induction kvs arbitrary: acc)
  case Nil
  show ?case by simp
next
  case (Cons kv kvs)
  obtain k v where kv: "kv = (k, v)" by (cases kv)
  from Cons.prems kv have new: "k \<notin> fst ` set acc" by auto
  from Cons.prems kv have d: "distinct (map fst ((acc @ [(k, v)]) @ kvs))" by auto
  show ?case using Cons.IH[OF d] by (simp add: kv update_new[OF new])
qed

lemma py_dict_distinct: "distinct (map fst kvs) \<Longrightarrow> py_dict kvs = kvs"
  using fold_update_distinct[of "[]" kvs] by (simp add: py_dict_def)

lemma py_dict_idem: "py_dict (py_dict kvs) = py_dict kvs"
  by (rule py_dict_distinct[OF distinct_py_dict])

lemma roundtrip_inj: "\<forall>k \<in> A. from_user_string sd (to_user_string sd k) = k \<Longrightarrow>
   inj_on (to_user_string sd) A"
  by (rule inj_on_inverseI[where g = "from_user_string sd"]) simp

lemma encoded_distinct:
  assumes "\<forall>k \<in> fst ` set kvs. from_user_string sd (to_user_string sd k) = k"
    and "distinct (map fst kvs)"
  shows "distinct (map fst (map (\<lambda>(k, v). (to_user_string sd k, enc v)) kvs))"
proof -
  have e: "map fst (map (\<lambda>(k, v). (to_user_string sd k, enc v)) kvs)
      = map (to_user_string sd) (map fst kvs)"
    by (induction kvs) auto
  have "distinct (map (to_user_string sd) (map fst kvs))"
  proof (rule distinct_map[THEN iffD2, OF conjI])
    show "distinct (map fst kvs)" by (rule assms(2))
    show "inj_on (to_user_string sd) (set (map fst kvs))"
      using roundtrip_inj[OF assms(1)] by simp
  qed
  then show ?thesis unfolding e .
qed

lemma comprehension_map:
  "concat (map (\<lambda>(k, v). [(f k, h v)]) kvs) = map (\<lambda>(k, v). (f k, h v)) kvs"
  by (induction kvs) auto

lemma comprehension_map_key:
  "concat (map (\<lambda>(k, v). [(f k, v)]) kvs) = map (\<lambda>(k, v). (f k, v)) kvs"
  by (induction kvs) auto

lemma not_stale:
  assumes "no_window_before_start g c"
    and "(k, p) \<in> set (handled_root_partitions_by_asset_key c)"
    and "get_partitions_def g k = Some d"
  shows "\<not> starts_before_start p d"
proof (cases p)
  case (TimeWindowPartitionsSubset windows)
  show ?thesis
  proof (cases "pd_start d")
    case None
    then show ?thesis by (simp add: starts_before_start_def TimeWindowPartitionsSubset)
  next
    case (Some s)
    from assms TimeWindowPartitionsSubset Some
    have "\<forall>w \<in> set windows. instant s \<le> instant (tw_start w)"
      unfolding no_window_before_start_def by blast
    then show ?thesis
      by (auto simp: starts_before_start_def TimeWindowPartitionsSubset Some list_ex_iff)
  qed
next
  case (OtherPartitionsSubset x)
  then show ?thesis by (simp add: starts_before_start_def)
qed

lemma partitions_loop_roundtrip:
  assumes "\<forall>(k, p) \<in> set kvs. from_user_string sd (to_user_string sd k) = k
            \<and> k \<in> materializable_asset_keys g
            \<and> (\<exists>d. get_partitions_def g k = Some d
                 \<and> deserialize_subset d (JString (serialize_subset sd p)) = Some p
                 \<and> \<not> starts_before_start p d)"
    and "distinct (map fst (acc @ kvs))"
  shows "handled_root_partitions_loop sd g
           (map (\<lambda>(k, p). (to_user_string sd k, JString (serialize_subset sd p))) kvs) acc
         = acc @ kvs"
  using assms
proof (induction kvs arbitrary: acc)
  case Nil
  show ?case by simp
next
  case (Cons kv kvs)
  obtain k p where kv: "kv = (k, p)" by (cases kv)
  from Cons.prems(1) kv obtain d where k: "from_user_string sd (to_user_string sd k) = k"
    "k \<in> materializable_asset_keys g" "get_partitions_def g k = Some d"
    "deserialize_subset d (JString (serialize_subset sd p)) = Some p"
    "\<not> starts_before_start p d" by auto
  from Cons.prems(2) kv have new: "k \<notin> fst ` set acc"
    and d: "distinct (map fst ((acc @ [(k, p)]) @ kvs))" by auto
  from Cons.prems(1) have rest: "\<forall>(k, p) \<in> set kvs. from_user_string sd (to_user_string sd k) = k
            \<and> k \<in> materializable_asset_keys g
            \<and> (\<exists>d. get_partitions_def g k = Some d
                 \<and> deserialize_subset d (JString (serialize_subset sd p)) = Some p
                 \<and> \<not> starts_before_start p d)" by simp
  have dec: "decode_subset d (JString (serialize_subset sd p)) = p"
    using k(4,5) by (simp add: decode_subset_def)
  show ?case
    using Cons.IH[OF rest d] k(1,2,3) by (simp add: kv Let_def dec update_new[OF new])
qed

lemma evaluation_loop_roundtrip:
  assumes "\<forall>(k, e) \<in> set kvs. from_user_string sd (to_user_string sd k) = k
            \<and> deserialize_value sd (JString (serialize_value sd e)) = Some e"
    and "distinct (map fst (acc @ kvs))"
  shows "latest_evaluation_loop sd
           (map (\<lambda>(k, e). (to_user_string sd k, JString (serialize_value sd e))) kvs) acc
         = Inr (acc @ kvs)"
  using assms
proof (induction kvs arbitrary: acc)
  case Nil
  show ?case by simp
next
  case (Cons kv kvs)
  obtain k e where kv: "kv = (k, e)" by (cases kv)
  from Cons.prems(1) kv have k: "from_user_string sd (to_user_string sd k) = k"
    "deserialize_value sd (JString (serialize_value sd e)) = Some e" by auto
  from Cons.prems(2) kv have new: "k \<notin> fst ` set acc"
    and d: "distinct (map fst ((acc @ [(k, e)]) @ kvs))" by auto
  from Cons.prems(1) have rest: "\<forall>(k, e) \<in> set kvs. from_user_string sd (to_user_string sd k) = k
            \<and> deserialize_value sd (JString (serialize_value sd e)) = Some e" by simp
  show ?case
    using Cons.IH[OF rest d] k by (simp add: kv Let_def update_new[OF new])
qed

lemma timestamps_roundtrip:
  assumes "\<forall>k \<in> fst ` set kvs. from_user_string sd (to_user_string sd k) = k"
    and "distinct (map fst kvs)"
  shows "py_dict (map (\<lambda>(key_str, ts). (from_user_string sd key_str, ts))
           (map (\<lambda>(k, t). (to_user_string sd k, JFloat t)) kvs))
         = map (\<lambda>(k, t). (k, JFloat t)) kvs"
proof -
  have m: "map (\<lambda>(key_str, ts). (from_user_string sd key_str, ts))
           (map (\<lambda>(k, t). (to_user_string sd k, JFloat t)) kvs)
      = map (\<lambda>(k, t). (k, JFloat t)) kvs"
    using assms(1) by (induction kvs) auto
  have f: "map fst (map (\<lambda>(k, t). (k, JFloat t)) kvs) = map fst kvs"
    by (induction kvs) auto
  show ?thesis
    unfolding m by (rule py_dict_distinct) (simp only: f assms(2))
qed

lemma keys_roundtrip:
  assumes "\<forall>k \<in> set ks. from_user_string sd (to_user_string sd k) = k" and "distinct ks"
  shows "py_set (map (from_user_string sd) (map (to_user_string sd) ks)) = ks"
proof -
  have "map (from_user_string sd) (map (to_user_string sd) ks) = ks"
    using assms(1) by (induction ks) auto
  then show ?thesis using assms(2) by (simp add: py_set_def)
qed

lemma py_dict_seven:
  "py_dict [(''latest_storage_id'', a), (''handled_root_asset_keys'', b),
      (''handled_root_partitions_by_asset_key'', c), (''evaluation_id'', d),
      (''last_observe_request_timestamp_by_asset_key'', e),
      (''latest_evaluation_by_asset_key'', f), (''latest_evaluation_timestamp'', g)]
   = [(''latest_storage_id'', a), (''handled_root_asset_keys'', b),
      (''handled_root_partitions_by_asset_key'', c), (''evaluation_id'', d),
      (''last_observe_request_timestamp_by_asset_key'', e),
      (''latest_evaluation_by_asset_key'', f), (''latest_evaluation_timestamp'', g)]"
  by (rule py_dict_distinct) simp

lemma unpack_fields_seven:
  "unpack_fields (JObject [(''latest_storage_id'', a), (''handled_root_asset_keys'', b),
      (''handled_root_partitions_by_asset_key'', c), (''evaluation_id'', d),
      (''last_observe_request_timestamp_by_asset_key'', e),
      (''latest_evaluation_by_asset_key'', f), (''latest_evaluation_timestamp'', g)])
   = Inr \<lparr> s_latest_storage_id = a, s_handled_root_asset_keys = b,
           s_handled_root_partitions_by_asset_key = c, s_evaluation_id = d,
           s_last_observe_request_timestamp_by_asset_key = e,
           s_latest_evaluation_by_asset_key = f,
           s_latest_evaluation_timestamp = g \<rparr>"
  unfolding unpack_fields_def json.case py_dict_seven
  by (simp add: Let_def subscript_def bind_err_simps dict_get_default_def)

lemma unpack_serialize:
  "unpack_fields (serialize sd c) =
     Inr \<lparr> s_latest_storage_id = json_of_optional_int (latest_storage_id c),
           s_handled_root_asset_keys =
             JList (map (\<lambda>k. JString (to_user_string sd k)) (handled_root_asset_keys c)),
           s_handled_root_partitions_by_asset_key =
             JObject (py_dict (map (\<lambda>(k, p). (to_user_string sd k, JString (serialize_subset sd p)))
                                (handled_root_partitions_by_asset_key c))),
           s_evaluation_id = JInt (evaluation_id c),
           s_last_observe_request_timestamp_by_asset_key =
             JObject (py_dict (map (\<lambda>(k, t). (to_user_string sd k, JFloat t))
                                (last_observe_request_timestamp_by_asset_key c))),
           s_latest_evaluation_by_asset_key =
             JObject (py_dict (map (\<lambda>(k, e). (to_user_string sd k, JString (serialize_value sd e)))
                                (latest_evaluation_by_asset_key c))),
           s_latest_evaluation_timestamp =
             json_of_optional_float (latest_evaluation_timestamp c) \<rparr>"
  by (simp only: serialize_def Let_def py_dict_seven unpack_fields_seven comprehension_map
      concat_map_singleton)

lemma strings_of_map: "strings_of (map (\<lambda>k. JString (f k)) ks) = Inr (map f ks)"
  by (induction ks) (simp_all add: bind_err_simps)

lemma items_object: "items (JObject kvs) = Inr (py_dict kvs)"
  by (simp add: items_def)

lemma map_of_distinct_member:
  "distinct (map fst d) \<Longrightarrow> (k, v) \<in> set d \<Longrightarrow> map_of d k = Some v"
  by simp

lemma dict_eq_image:
  assumes "distinct (map fst d)" and "\<forall>(k, v) \<in> set d. value_eq (h v) v"
  shows "dict_eq value_eq (map (\<lambda>(k, v). (k, h v)) d) d"
proof -
  have "list_all (\<lambda>(k, v). case map_of d k of None \<Rightarrow> False | Some v' \<Rightarrow> value_eq v v')
          (map (\<lambda>(k, v). (k, h v)) d)"
    unfolding list_all_iff
  proof (clarsimp)
    fix k v
    assume m: "(k, v) \<in> set d"
    from map_of_distinct_member[OF assms(1) m] assms(2) m
    show "case map_of d k of None \<Rightarrow> False | Some v' \<Rightarrow> value_eq (h v) v'" by auto
  qed
  then show ?thesis by (simp add: dict_eq_def)
qed

lemma dict_eq_same: "distinct (map fst d) \<Longrightarrow> dict_eq (=) d d"
  using dict_eq_image[of d "(=)" "\<lambda>v. v"] by simp

lemma json_optional_int_eq_same: "json_optional_int_eq (json_of_optional_int x) x"
  by (cases x)
     (simp_all add: json_optional_int_eq_def json_of_optional_int_def json_int_eq_def
        json_float_eq_def float_eq_def)

lemma json_int_eq_same: "json_int_eq (JInt n) n"
  by (simp add: json_int_eq_def json_float_eq_def float_eq_def)

lemma json_float_eq_same: "json_float_eq (JFloat t) t \<longleftrightarrow> t \<noteq> NaN"
  by (simp add: json_float_eq_def float_eq_def)

lemma json_optional_float_eq_same:
  "json_optional_float_eq (json_of_optional_float x) x \<longleftrightarrow> x \<noteq> Some NaN"
  by (cases x)
     (simp_all add: json_optional_float_eq_def json_of_optional_float_def json_float_eq_same)

lemma serialize_read_back:
  assumes wf: "wf_cursor c" and sr: "serdes_roundtrip sd c" and valid: "valid_cursor sd g c"
    and nw: "no_window_before_start g c"
  shows "from_serialized sd (serialize sd c) g =
      Inr \<lparr> latest_storage_id = json_of_optional_int (latest_storage_id c),
            handled_root_asset_keys = handled_root_asset_keys c,
            handled_root_partitions_by_asset_key = handled_root_partitions_by_asset_key c,
            evaluation_id = JInt (evaluation_id c),
            last_observe_request_timestamp_by_asset_key =
              map (\<lambda>(k, t). (k, JFloat t)) (last_observe_request_timestamp_by_asset_key c),
            latest_evaluation_by_asset_key = latest_evaluation_by_asset_key c,
            latest_evaluation_timestamp =
              json_of_optional_float (latest_evaluation_timestamp c) \<rparr>"
proof -
  from sr have keys: "\<forall>k \<in> cursor_keys c. from_user_string sd (to_user_string sd k) = k"
    and evs: "\<forall>(k, e) \<in> set (latest_evaluation_by_asset_key c).
           deserialize_value sd (JString (serialize_value sd e)) = Some e"
    by (simp_all add: serdes_roundtrip_def)
  from keys have k1: "\<forall>k \<in> set (handled_root_asset_keys c).
        from_user_string sd (to_user_string sd k) = k"
    and k2: "\<forall>k \<in> fst ` set (handled_root_partitions_by_asset_key c).
        from_user_string sd (to_user_string sd k) = k"
    and k3: "\<forall>k \<in> fst ` set (last_observe_request_timestamp_by_asset_key c).
        from_user_string sd (to_user_string sd k) = k"
    and k4: "\<forall>k \<in> fst ` set (latest_evaluation_by_asset_key c).
        from_user_string sd (to_user_string sd k) = k"
    by (simp_all add: cursor_keys_def)
  from wf have d1: "distinct (handled_root_asset_keys c)"
    and d2: "distinct (map fst (handled_root_partitions_by_asset_key c))"
    and d3: "distinct (map fst (last_observe_request_timestamp_by_asset_key c))"
    and d4: "distinct (map fst (latest_evaluation_by_asset_key c))"
    by (simp_all add: wf_cursor_def)
  have p: "handled_root_partitions_loop sd g
      (map (\<lambda>(k, p). (to_user_string sd k, JString (serialize_subset sd p)))
         (handled_root_partitions_by_asset_key c)) []
      = handled_root_partitions_by_asset_key c"
  proof -
    have "\<forall>(k, p) \<in> set (handled_root_partitions_by_asset_key c).
            from_user_string sd (to_user_string sd k) = k
            \<and> k \<in> materializable_asset_keys g
            \<and> (\<exists>d. get_partitions_def g k = Some d
                 \<and> deserialize_subset d (JString (serialize_subset sd p)) = Some p
                 \<and> \<not> starts_before_start p d)"
    proof (clarify)
      fix k p
      assume m: "(k, p) \<in> set (handled_root_partitions_by_asset_key c)"
      from k2 m have a: "from_user_string sd (to_user_string sd k) = k" by force
      from valid m obtain d where b: "k \<in> materializable_asset_keys g"
        and d: "get_partitions_def g k = Some d"
        and e: "deserialize_subset d (JString (serialize_subset sd p)) = Some p"
        unfolding valid_cursor_def by blast
      from not_stale[OF nw m d] a b d e
      show "from_user_string sd (to_user_string sd k) = k
            \<and> k \<in> materializable_asset_keys g
            \<and> (\<exists>d. get_partitions_def g k = Some d
                 \<and> deserialize_subset d (JString (serialize_subset sd p)) = Some p
                 \<and> \<not> starts_before_start p d)" by blast
    qed
    from partitions_loop_roundtrip[OF this, of "[]"] d2 show ?thesis by simp
  qed
  have e: "latest_evaluation_loop sd
      (map (\<lambda>(k, e). (to_user_string sd k, JString (serialize_value sd e)))
         (latest_evaluation_by_asset_key c)) []
      = Inr (latest_evaluation_by_asset_key c)"
  proof -
    have "\<forall>(k, e) \<in> set (latest_evaluation_by_asset_key c).
            from_user_string sd (to_user_string sd k) = k
            \<and> deserialize_value sd (JString (serialize_value sd e)) = Some e"
      using k4 evs by fastforce
    from evaluation_loop_roundtrip[OF this, of "[]"] d4 show ?thesis by simp
  qed
  have i2: "py_dict (map (\<lambda>(k, p). (to_user_string sd k, JString (serialize_subset sd p)))
                   (handled_root_partitions_by_asset_key c))
      = map (\<lambda>(k, p). (to_user_string sd k, JString (serialize_subset sd p)))
                   (handled_root_partitions_by_asset_key c)"
    by (rule py_dict_distinct[OF encoded_distinct[OF k2 d2]])
  have i3: "py_dict (map (\<lambda>(k, t). (to_user_string sd k, JFloat t))
                   (last_observe_request_timestamp_by_asset_key c))
      = map (\<lambda>(k, t). (to_user_string sd k, JFloat t))
                   (last_observe_request_timestamp_by_asset_key c)"
    by (rule py_dict_distinct[OF encoded_distinct[OF k3 d3]])
  have i4: "py_dict (map (\<lambda>(k, e). (to_user_string sd k, JString (serialize_value sd e)))
                   (latest_evaluation_by_asset_key c))
      = map (\<lambda>(k, e). (to_user_string sd k, JString (serialize_value sd e)))
                   (latest_evaluation_by_asset_key c)"
    by (rule py_dict_distinct[OF encoded_distinct[OF k4 d4]])
  have ks: "iter_key_strings
      (JList (map (\<lambda>k. JString (to_user_string sd k)) (handled_root_asset_keys c)))
      = Inr (map (to_user_string sd) (handled_root_asset_keys c))"
    by (simp only: iter_key_strings_def json.case strings_of_map)
  show ?thesis
    by (simp only: from_serialized_def unpack_serialize bind_err_simps Let_def
        serialized_fields.select_convs items_object py_dict_idem i2 i3 i4 p e
        comprehension_map_key timestamps_roundtrip[OF k3 d3] ks keys_roundtrip[OF k1 d1])
qed

text \<open>
  Claim C2, as the code has it. Let the cursor be a Python value (its set and its dicts
  hold each key once) on which the collaborators read back what they wrote: the string of
  each of its asset keys reads back as the key, the serialized form of each of its
  evaluations reads back as the evaluation. If every key of its handled partitions is a
  materializable asset whose current partitions definition decodes the serialized subset
  to the subset, no handled time-windowed subset has a window that starts before the
  start of its asset's time-windowed definition, and no timestamp of the cursor is NaN,
  then deserializing the serialized cursor returns a cursor that is equal to the cursor,
  field by field.
\<close>

theorem serialize_roundtrip:
  assumes "wf_cursor c" and "serdes_roundtrip sd c" and "valid_cursor sd g c"
    and "no_window_before_start g c" and "no_nan_timestamp c"
  shows "\<exists>c'. from_serialized sd (serialize sd c) g = Inr c' \<and> cursor_eq c' c"
proof -
  let ?c' = "\<lparr> latest_storage_id = json_of_optional_int (latest_storage_id c),
            handled_root_asset_keys = handled_root_asset_keys c,
            handled_root_partitions_by_asset_key = handled_root_partitions_by_asset_key c,
            evaluation_id = JInt (evaluation_id c),
            last_observe_request_timestamp_by_asset_key =
              map (\<lambda>(k, t). (k, JFloat t)) (last_observe_request_timestamp_by_asset_key c),
            latest_evaluation_by_asset_key = latest_evaluation_by_asset_key c,
            latest_evaluation_timestamp =
              json_of_optional_float (latest_evaluation_timestamp c) \<rparr>"
  have r: "from_serialized sd (serialize sd c) g = Inr ?c'"
    by (rule serialize_read_back[OF assms(1-4)])
  from assms(1) have d2: "distinct (map fst (handled_root_partitions_by_asset_key c))"
    and d3: "distinct (map fst (last_observe_request_timestamp_by_asset_key c))"
    and d4: "distinct (map fst (latest_evaluation_by_asset_key c))"
    by (simp_all add: wf_cursor_def)
  from assms(5) have n1: "latest_evaluation_timestamp c \<noteq> Some NaN"
    and n2: "\<forall>(k, t) \<in> set (last_observe_request_timestamp_by_asset_key c). t \<noteq> NaN"
    by (simp_all add: no_nan_timestamp_def)
  have o: "dict_eq json_float_eq
      (map (\<lambda>(k, t). (k, JFloat t)) (last_observe_request_timestamp_by_asset_key c))
      (last_observe_request_timestamp_by_asset_key c)"
    by (rule dict_eq_image[OF d3]) (use n2 in \<open>simp add: json_float_eq_same\<close>)
  have "cursor_eq ?c' c"
    unfolding cursor_eq_def
    by (simp add: json_optional_int_eq_same json_int_eq_same dict_eq_same[OF d2]
        dict_eq_same[OF d4] o json_optional_float_eq_same n1)
  with r show ?thesis by blast
qed

lemma ex_roundtrip_conditions:
  "wf_cursor (ex_cursor s [(''b'', p)])"
  "serdes_roundtrip ex_serdes (ex_cursor s [(''b'', p)])"
  "no_nan_timestamp (ex_cursor s [(''b'', p)])"
  by (simp_all add: wf_cursor_def serdes_roundtrip_def cursor_keys_def ex_cursor_def ex_serdes_def
      ex_evaluation_def no_nan_timestamp_def)

lemma ex_valid:
  "valid_cursor ex_serdes ex_graph (ex_cursor s [(''b'', ex_window)])"
  "valid_cursor ex_serdes ex_graph (ex_cursor s [(''b'', ex_late_window)])"
  by (simp_all add: valid_cursor_def ex_cursor_def ex_serdes_def ex_graph_def
      ex_partitions_def_def ex_window_def ex_late_window_def)

text \<open>
  A cursor whose handled subset of \<open>b\<close> is the window from 6 to 10, after the start 5 of
  the definition of \<open>b\<close>, and the empty cursor are read back equal.
\<close>

theorem serialize_roundtrip_witness:
  "deserialize_subset ex_partitions_def (JString (serialize_subset ex_serdes ex_late_window))
     = Some (TimeWindowPartitionsSubset [TimeWindow (Datetime 6) (Datetime 10)])
   \<and> pd_start ex_partitions_def = Some (Datetime 5)
   \<and> (\<exists>c'. from_serialized ex_serdes
          (serialize ex_serdes (ex_cursor (Some 5) [(''b'', ex_late_window)])) ex_graph = Inr c'
        \<and> cursor_eq c' (ex_cursor (Some 5) [(''b'', ex_late_window)]))
   \<and> (\<exists>c'. from_serialized ex_serdes (serialize ex_serdes empty) ex_graph = Inr c'
        \<and> cursor_eq c' empty)"
proof -
  have w: "no_window_before_start ex_graph (ex_cursor (Some 5) [(''b'', ex_late_window)])"
    by (simp add: no_window_before_start_def ex_cursor_def ex_late_window_def ex_graph_def
        ex_partitions_def_def)
  from serialize_roundtrip[OF ex_roundtrip_conditions(1) ex_roundtrip_conditions(2) ex_valid(2) w
      ex_roundtrip_conditions(3)]
  have a: "\<exists>c'. from_serialized ex_serdes
          (serialize ex_serdes (ex_cursor (Some 5) [(''b'', ex_late_window)])) ex_graph = Inr c'
        \<and> cursor_eq c' (ex_cursor (Some 5) [(''b'', ex_late_window)])" .
  have "wf_cursor (empty :: (string, unit, unit) annotated_cursor)"
    and "serdes_roundtrip ex_serdes empty" and "valid_cursor ex_serdes ex_graph empty"
    and "no_window_before_start ex_graph (empty :: (string, unit, unit) annotated_cursor)"
    and "no_nan_timestamp (empty :: (string, unit, unit) annotated_cursor)"
    by (simp_all add: wf_cursor_def serdes_roundtrip_def cursor_keys_def valid_cursor_def
        no_window_before_start_def no_nan_timestamp_def empty_def)
  then have b: "\<exists>c'. from_serialized ex_serdes (serialize ex_serdes empty) ex_graph = Inr c'
        \<and> cursor_eq c' empty"
    by (rule serialize_roundtrip)
  have d: "deserialize_subset ex_partitions_def
      (JString (serialize_subset ex_serdes ex_late_window))
     = Some (TimeWindowPartitionsSubset [TimeWindow (Datetime 6) (Datetime 10)])"
    and s: "pd_start ex_partitions_def = Some (Datetime 5)"
    by (simp_all add: ex_partitions_def_def ex_serdes_def ex_late_window_def ex_window_def)
  from d s a b show ?thesis by blast
qed

text \<open>
  Claim C2 as stated fails. The first cursor is valid in the claim's sense (the
  definition of \<open>b\<close> decodes the serialized subset to the subset itself), but its window
  starts at 0, before the definition's start 5, so deserialization replaces the subset by
  the empty one. The second cursor holds NaN as its evaluation timestamp, which is read
  back as NaN and equals nothing. The third cursor holds the asset key of the one
  component \<open>a/b\<close>, whose string reads back as the key of the two components \<open>a\<close> and
  \<open>b\<close>. With a serialization layer that does not read the evaluation back, the fourth
  deserialization raises.
\<close>

theorem serialize_roundtrip_counterexample:
  "(wf_cursor (ex_cursor (Some 5) [(''b'', ex_window)])
    \<and> serdes_roundtrip ex_serdes (ex_cursor (Some 5) [(''b'', ex_window)])
    \<and> valid_cursor ex_serdes ex_graph (ex_cursor (Some 5) [(''b'', ex_window)])
    \<and> no_nan_timestamp (ex_cursor (Some 5) [(''b'', ex_window)])
    \<and> from_serialized ex_serdes (serialize ex_serdes (ex_cursor (Some 5) [(''b'', ex_window)]))
         ex_graph
       = Inr \<lparr> latest_storage_id = JInt 5, handled_root_asset_keys = [''a''],
               handled_root_partitions_by_asset_key = [(''b'', TimeWindowPartitionsSubset [])],
               evaluation_id = JInt 7,
               last_observe_request_timestamp_by_asset_key = [(''c'', JFloat (Finite 3))],
               latest_evaluation_by_asset_key = [(''a'', ex_evaluation False ''a'')],
               latest_evaluation_timestamp = JFloat (Finite 4) \<rparr>
    \<and> \<not> cursor_eq
          \<lparr> latest_storage_id = JInt 5, handled_root_asset_keys = [''a''],
            handled_root_partitions_by_asset_key = [(''b'', TimeWindowPartitionsSubset [])],
            evaluation_id = JInt 7,
            last_observe_request_timestamp_by_asset_key = [(''c'', JFloat (Finite 3))],
            latest_evaluation_by_asset_key = [(''a'', ex_evaluation False ''a'')],
            latest_evaluation_timestamp = JFloat (Finite 4) \<rparr>
          (ex_cursor (Some 5) [(''b'', ex_window)]))
   \<and> (wf_cursor ((ex_cursor (Some 5) [])\<lparr> latest_evaluation_timestamp := Some NaN \<rparr>)
    \<and> serdes_roundtrip ex_serdes
          ((ex_cursor (Some 5) [])\<lparr> latest_evaluation_timestamp := Some NaN \<rparr>)
    \<and> valid_cursor ex_serdes ex_graph
          ((ex_cursor (Some 5) [])\<lparr> latest_evaluation_timestamp := Some NaN \<rparr>)
    \<and> no_window_before_start ex_graph
          ((ex_cursor (Some 5) [])\<lparr> latest_evaluation_timestamp := Some NaN \<rparr>)
    \<and> from_serialized ex_serdes
         (serialize ex_serdes ((ex_cursor (Some 5) [])\<lparr> latest_evaluation_timestamp := Some NaN \<rparr>))
         ex_graph
       = Inr \<lparr> latest_storage_id = JInt 5, handled_root_asset_keys = [''a''],
               handled_root_partitions_by_asset_key = [],
               evaluation_id = JInt 7,
               last_observe_request_timestamp_by_asset_key = [(''c'', JFloat (Finite 3))],
               latest_evaluation_by_asset_key = [(''a'', ex_evaluation False ''a'')],
               latest_evaluation_timestamp = JFloat NaN \<rparr>
    \<and> \<not> cursor_eq
          \<lparr> latest_storage_id = JInt 5, handled_root_asset_keys = [''a''],
            handled_root_partitions_by_asset_key = [],
            evaluation_id = JInt 7,
            last_observe_request_timestamp_by_asset_key = [(''c'', JFloat (Finite 3))],
            latest_evaluation_by_asset_key = [(''a'', ex_evaluation False ''a'')],
            latest_evaluation_timestamp = JFloat NaN \<rparr>
          ((ex_cursor (Some 5) [])\<lparr> latest_evaluation_timestamp := Some NaN \<rparr>))
   \<and> (wf_cursor (empty\<lparr> handled_root_asset_keys := [[''a/b'']] \<rparr>)
    \<and> valid_cursor ex_path_serdes ex_path_graph (empty\<lparr> handled_root_asset_keys := [[''a/b'']] \<rparr>)
    \<and> no_window_before_start ex_path_graph (empty\<lparr> handled_root_asset_keys := [[''a/b'']] \<rparr>)
    \<and> no_nan_timestamp (empty\<lparr> handled_root_asset_keys := [[''a/b'']] \<rparr>)
    \<and> from_serialized ex_path_serdes
         (serialize ex_path_serdes (empty\<lparr> handled_root_asset_keys := [[''a/b'']] \<rparr>))
         ex_path_graph
       = Inr \<lparr> latest_storage_id = JNull, handled_root_asset_keys = [[''a'', ''b'']],
               handled_root_partitions_by_asset_key = [],
               evaluation_id = JInt 0,
               last_observe_request_timestamp_by_asset_key = [],
               latest_evaluation_by_asset_key = [],
               latest_evaluation_timestamp = JNull \<rparr>
    \<and> \<not> cursor_eq
          \<lparr> latest_storage_id = JNull, handled_root_asset_keys = [[''a'', ''b'']],
            handled_root_partitions_by_asset_key = [],
            evaluation_id = JInt 0,
            last_observe_request_timestamp_by_asset_key = [],
            latest_evaluation_by_asset_key = [],
            latest_evaluation_timestamp = JNull \<rparr>
          (empty\<lparr> handled_root_asset_keys := [[''a/b'']] \<rparr>))
   \<and> (wf_cursor (ex_cursor (Some 5) [])
    \<and> valid_cursor (ex_serdes\<lparr> deserialize_value := (\<lambda>j. None) \<rparr>) ex_graph
          (ex_cursor (Some 5) [])
    \<and> no_window_before_start ex_graph (ex_cursor (Some 5) [])
    \<and> no_nan_timestamp (ex_cursor (Some 5) [])
    \<and> from_serialized (ex_serdes\<lparr> deserialize_value := (\<lambda>j. None) \<rparr>)
         (serialize (ex_serdes\<lparr> deserialize_value := (\<lambda>j. None) \<rparr>) (ex_cursor (Some 5) []))
         ex_graph
       = Inl DeserializationError)"
proof -
  have a1: "wf_cursor (ex_cursor (Some 5) [(''b'', ex_window)])"
    and a2: "serdes_roundtrip ex_serdes (ex_cursor (Some 5) [(''b'', ex_window)])"
    and a3: "valid_cursor ex_serdes ex_graph (ex_cursor (Some 5) [(''b'', ex_window)])"
    and a4: "no_nan_timestamp (ex_cursor (Some 5) [(''b'', ex_window)])"
    by (rule ex_roundtrip_conditions ex_valid)+
  have a5: "from_serialized ex_serdes (serialize ex_serdes (ex_cursor (Some 5) [(''b'', ex_window)]))
         ex_graph
       = Inr \<lparr> latest_storage_id = JInt 5, handled_root_asset_keys = [''a''],
               handled_root_partitions_by_asset_key = [(''b'', TimeWindowPartitionsSubset [])],
               evaluation_id = JInt 7,
               last_observe_request_timestamp_by_asset_key = [(''c'', JFloat (Finite 3))],
               latest_evaluation_by_asset_key = [(''a'', ex_evaluation False ''a'')],
               latest_evaluation_timestamp = JFloat (Finite 4) \<rparr>"
    unfolding from_serialized_def unpack_serialize
    by (simp add: bind_err_simps items_def py_dict_def iter_key_strings_def
        json_of_optional_int_def json_of_optional_float_def
        ex_cursor_def ex_serdes_def ex_graph_def ex_partitions_def_def ex_window_def
        decode_subset_def starts_before_start_def py_set_def ex_evaluation_def)
  have a6: "\<not> cursor_eq
          \<lparr> latest_storage_id = JInt 5, handled_root_asset_keys = [''a''],
            handled_root_partitions_by_asset_key = [(''b'', TimeWindowPartitionsSubset [])],
            evaluation_id = JInt 7,
            last_observe_request_timestamp_by_asset_key = [(''c'', JFloat (Finite 3))],
            latest_evaluation_by_asset_key = [(''a'', ex_evaluation False ''a'')],
            latest_evaluation_timestamp = JFloat (Finite 4) \<rparr>
          (ex_cursor (Some 5) [(''b'', ex_window)])"
    by (simp add: cursor_eq_def dict_eq_def ex_cursor_def ex_window_def)
  have b1: "wf_cursor ((ex_cursor (Some 5) [])\<lparr> latest_evaluation_timestamp := Some NaN \<rparr>)"
    and b2: "serdes_roundtrip ex_serdes
          ((ex_cursor (Some 5) [])\<lparr> latest_evaluation_timestamp := Some NaN \<rparr>)"
    and b3: "valid_cursor ex_serdes ex_graph
          ((ex_cursor (Some 5) [])\<lparr> latest_evaluation_timestamp := Some NaN \<rparr>)"
    and b4: "no_window_before_start ex_graph
          ((ex_cursor (Some 5) [])\<lparr> latest_evaluation_timestamp := Some NaN \<rparr>)"
    by (simp_all add: wf_cursor_def serdes_roundtrip_def cursor_keys_def valid_cursor_def
        no_window_before_start_def ex_cursor_def ex_serdes_def ex_evaluation_def)
  have b5: "from_serialized ex_serdes
         (serialize ex_serdes ((ex_cursor (Some 5) [])\<lparr> latest_evaluation_timestamp := Some NaN \<rparr>))
         ex_graph
       = Inr \<lparr> latest_storage_id = JInt 5, handled_root_asset_keys = [''a''],
               handled_root_partitions_by_asset_key = [],
               evaluation_id = JInt 7,
               last_observe_request_timestamp_by_asset_key = [(''c'', JFloat (Finite 3))],
               latest_evaluation_by_asset_key = [(''a'', ex_evaluation False ''a'')],
               latest_evaluation_timestamp = JFloat NaN \<rparr>"
    unfolding from_serialized_def unpack_serialize
    by (simp add: bind_err_simps items_def py_dict_def iter_key_strings_def
        json_of_optional_int_def json_of_optional_float_def
        ex_cursor_def ex_serdes_def py_set_def ex_evaluation_def)
  have b6: "\<not> cursor_eq
          \<lparr> latest_storage_id = JInt 5, handled_root_asset_keys = [''a''],
            handled_root_partitions_by_asset_key = [],
            evaluation_id = JInt 7,
            last_observe_request_timestamp_by_asset_key = [(''c'', JFloat (Finite 3))],
            latest_evaluation_by_asset_key = [(''a'', ex_evaluation False ''a'')],
            latest_evaluation_timestamp = JFloat NaN \<rparr>
          ((ex_cursor (Some 5) [])\<lparr> latest_evaluation_timestamp := Some NaN \<rparr>)"
    by (simp add: cursor_eq_def json_optional_float_eq_def json_float_eq_def float_eq_def
        ex_cursor_def)
  have c1: "wf_cursor (empty\<lparr> handled_root_asset_keys := [[''a/b'']] \<rparr>)"
    and c2: "valid_cursor ex_path_serdes ex_path_graph
          (empty\<lparr> handled_root_asset_keys := [[''a/b'']] \<rparr>)"
    and c3: "no_window_before_start ex_path_graph
          (empty\<lparr> handled_root_asset_keys := [[''a/b'']] \<rparr>)"
    and c4: "no_nan_timestamp (empty\<lparr> handled_root_asset_keys := [[''a/b'']] \<rparr>)"
    by (simp_all add: wf_cursor_def valid_cursor_def no_window_before_start_def
        no_nan_timestamp_def empty_def)
  have c5: "from_serialized ex_path_serdes
         (serialize ex_path_serdes (empty\<lparr> handled_root_asset_keys := [[''a/b'']] \<rparr>))
         ex_path_graph
       = Inr \<lparr> latest_storage_id = JNull, handled_root_asset_keys = [[''a'', ''b'']],
               handled_root_partitions_by_asset_key = [],
               evaluation_id = JInt 0,
               last_observe_request_timestamp_by_asset_key = [],
               latest_evaluation_by_asset_key = [],
               latest_evaluation_timestamp = JNull \<rparr>"
    unfolding from_serialized_def unpack_serialize
    by (simp add: bind_err_simps items_def py_dict_def iter_key_strings_def
        json_of_optional_int_def json_of_optional_float_def
        empty_def ex_path_serdes_def py_set_def)
  have c6: "\<not> cursor_eq
          \<lparr> latest_storage_id = JNull, handled_root_asset_keys = [[''a'', ''b'']],
            handled_root_partitions_by_asset_key = [],
            evaluation_id = JInt 0,
            last_observe_request_timestamp_by_asset_key = [],
            latest_evaluation_by_asset_key = [],
            latest_evaluation_timestamp = JNull \<rparr>
          (empty\<lparr> handled_root_asset_keys := [[''a/b'']] \<rparr>)"
    by (simp add: cursor_eq_def empty_def)
  have d1: "wf_cursor (ex_cursor (Some 5) [])"
    and d2: "valid_cursor (ex_serdes\<lparr> deserialize_value := (\<lambda>j. None) \<rparr>) ex_graph
          (ex_cursor (Some 5) [])"
    and d3: "no_window_before_start ex_graph (ex_cursor (Some 5) [])"
    and d4: "no_nan_timestamp (ex_cursor (Some 5) [])"
    by (simp_all add: wf_cursor_def valid_cursor_def no_window_before_start_def
        no_nan_timestamp_def ex_cursor_def)
  have d5: "from_serialized (ex_serdes\<lparr> deserialize_value := (\<lambda>j. None) \<rparr>)
         (serialize (ex_serdes\<lparr> deserialize_value := (\<lambda>j. None) \<rparr>) (ex_cursor (Some 5) []))
         ex_graph
       = Inl DeserializationError"
    unfolding from_serialized_def unpack_serialize
    by (simp add: bind_err_simps items_def py_dict_def ex_cursor_def ex_serdes_def)
  show ?thesis
    by (intro conjI a1 a2 a3 a4 a5 a6 b1 b2 b3 b4 b5 b6 c1 c2 c3 c4 c5 c6 d1 d2 d3 d4 d5)
qed

end
